theory Spec2Isabelle
  imports Main
begin

section \<open>Strings\<close>

text \<open>
  JavaScript strings are modelled as \<open>string\<close>.  \<open>startsWith\<close> and \<open>includes_str\<close>
  are \<^verbatim>\<open>String.prototype.startsWith\<close> and \<^verbatim>\<open>String.prototype.includes\<close> (the latter
  renamed: \<open>includes\<close> is reserved in Isabelle).  \<open>toUpperCase\<close> maps the letters
  \<^verbatim>\<open>a\<close> to \<^verbatim>\<open>z\<close> and leaves every other character as it is.  JavaScript also maps
  letters outside ASCII (the dotless i to \<^verbatim>\<open>I\<close>, the long s to \<^verbatim>\<open>S\<close>, the sharp s to
  \<^verbatim>\<open>SS\<close>); the status words of the API are ASCII, and on ASCII strings the two agree.
\<close>

fun startsWith :: "string \<Rightarrow> string \<Rightarrow> bool" where
  "startsWith s [] = True"
| "startsWith [] (p # ps) = False"
| "startsWith (c # cs) (p # ps) = (c = p \<and> startsWith cs ps)"

fun includes_str :: "string \<Rightarrow> string \<Rightarrow> bool" where
  "includes_str [] p = startsWith [] p"
| "includes_str (c # cs) p = (startsWith (c # cs) p \<or> includes_str cs p)"

definition toUpperCase :: "string \<Rightarrow> string" where
  "toUpperCase s =
     map (\<lambda>c. case map_of (zip ''abcdefghijklmnopqrstuvwxyz'' ''ABCDEFGHIJKLMNOPQRSTUVWXYZ'') c of
               None \<Rightarrow> c
             | Some C \<Rightarrow> C) s"

text \<open>The decimal rendering of a number inside a template literal.\<close>

definition digit :: "nat \<Rightarrow> char" where
  "digit d = ''0123456789'' ! d"

fun decimal :: "nat \<Rightarrow> string" where
  "decimal n = (if n < 10 then [digit n] else decimal (n div 10) @ [digit (n mod 10)])"

declare decimal.simps [simp del]

text \<open>
  A value that is a string, \<^verbatim>\<open>null\<close> or \<^verbatim>\<open>undefined\<close> is a \<open>string option\<close>.
  \<open>truthy\<close> is its truth value in a condition (the empty string is falsy),
  \<open>template\<close> its rendering inside a template literal.
\<close>

definition truthy :: "string option \<Rightarrow> bool" where
  "truthy v = (case v of None \<Rightarrow> False | Some t \<Rightarrow> t \<noteq> [])"

definition template :: "string option \<Rightarrow> string" where
  "template v = (case v of None \<Rightarrow> ''undefined'' | Some t \<Rightarrow> t)"

section \<open>The HTTP client (api.js)\<close>

subsection \<open>Requests, replies and the transport\<close>

datatype verb = GET | POST

text \<open>
  A response body is a JSON object; the record holds the fields the client reads
  (\<open>None\<close> for a field the object does not have) and the rest as opaque text.
\<close>

record payload =
  access_token :: "string option"
  status_field :: "string option"
  video_id :: "string option"
  content :: string

text \<open>
  An axios request configuration: the URL relative to the base URL, the verb, the
  request body, the \<^verbatim>\<open>_retry\<close> mark the response interceptor sets, and the
  \<^verbatim>\<open>Authorization\<close> header.
\<close>

record config =
  url :: string
  verb :: verb
  body :: "string list"
  retry :: bool
  authorization :: "string option"

text \<open>
  What comes back from the network: an HTTP status with a body, or nothing (a network
  error or the 30 second timeout, for which \<^verbatim>\<open>error.response\<close> is undefined).
\<close>

datatype reply = Reply nat payload | NoReply

datatype response = Response nat payload

record failure =
  config :: config
  response :: "(nat \<times> payload) option"

text \<open>
  The server and the network are a deterministic machine of an arbitrary state type
  \<open>'w\<close>: it answers each request and moves to its next state.
\<close>

type_synonym 'w transport = "'w \<Rightarrow> config \<Rightarrow> reply \<times> 'w"

datatype log = Debug string | Warn string | Error string

text \<open>
  The state the module works on: the memory-only token \<^verbatim>\<open>_accessToken\<close>, the state
  of the server, every request handed to the network so far (in order), and the
  console.
\<close>

record 'w sys =
  accessToken :: "string option"
  world :: 'w
  wire :: "config list"
  console :: "log list"

definition setAccessToken :: "string option \<Rightarrow> 'w sys \<Rightarrow> 'w sys" where
  "setAccessToken token s = s\<lparr>accessToken := token\<rparr>"

definition getAccessToken :: "'w sys \<Rightarrow> string option" where
  "getAccessToken s = accessToken s"

definition post :: "string \<Rightarrow> string list \<Rightarrow> config" where
  "post u d = \<lparr>url = u, verb = POST, body = d, retry = False, authorization = None\<rparr>"

definition get :: "string \<Rightarrow> config" where
  "get u = \<lparr>url = u, verb = GET, body = [], retry = False, authorization = None\<rparr>"

subsection \<open>Interceptors\<close>

text \<open>The request interceptor attaches the token when there is one.\<close>

definition request_interceptor :: "string option \<Rightarrow> config \<Rightarrow> config" where
  "request_interceptor token cfg =
     (if truthy token then cfg\<lparr>authorization := Some (''Bearer '' @ template token)\<rparr> else cfg)"

text \<open>
  axios settles a reply: a status from 200 to 299 fulfils the promise, any other status
  and a missing reply reject it with an error that carries the configuration sent.
\<close>

definition settle :: "config \<Rightarrow> reply \<Rightarrow> failure + response" where
  "settle cfg r =
     (case r of
        Reply st d \<Rightarrow>
          if 200 \<le> st \<and> st < 300 then Inr (Response st d)
          else Inl \<lparr>config = cfg, response = Some (st, d)\<rparr>
      | NoReply \<Rightarrow> Inl \<lparr>config = cfg, response = None\<rparr>)"

text \<open>Handing a configuration to the network and settling the reply.\<close>

definition dispatchRequest ::
  "'w transport \<Rightarrow> config \<Rightarrow> 'w sys \<Rightarrow> (failure + response) \<times> 'w sys" where
  "dispatchRequest net cfg s =
     (let rw = net (world s) cfg
      in (settle cfg (fst rw), s\<lparr>world := snd rw, wire := wire s @ [cfg]\<rparr>))"

definition auth_endpoint :: "config \<Rightarrow> bool" where
  "auth_endpoint cfg =
     (includes_str (url cfg) ''/auth/refresh'' \<or> includes_str (url cfg) ''/auth/login'')"

definition unauthorized :: "failure \<Rightarrow> bool" where
  "unauthorized error = (map_option fst (response error) = Some 401)"

text \<open>
  A call \<^verbatim>\<open>api(config)\<close>, awaited to its end: the request interceptor, the network,
  and the response interceptor.  The response interceptor passes a fulfilled response
  on; on a rejection it is the \<^verbatim>\<open>async (error) => ...\<close> handler, which calls
  \<^verbatim>\<open>api\<close> again for the refresh and for the resend.  The promise returned from inside
  \<^verbatim>\<open>try\<close> is not awaited there, so a failure of the resend does not reach
  \<^verbatim>\<open>catch\<close>.
\<close>

function api :: "'w transport \<Rightarrow> config \<Rightarrow> 'w sys \<Rightarrow> (failure + response) \<times> 'w sys" where
  "api net cfg s =
     (case dispatchRequest net (request_interceptor (accessToken s) cfg) s of
        (Inr resp, s1) \<Rightarrow> (Inr resp, s1)
      | (Inl error, s1) \<Rightarrow>
          if unauthorized error \<and> \<not> retry (config error) then
            if auth_endpoint (config error) then (Inl error, s1)
            else
              (case api net (post ''/auth/refresh'' []) s1 of
                 (Inr (Response st d), s2) \<Rightarrow>
                   api net
                     ((config error)\<lparr>retry := True,
                        authorization := Some (''Bearer '' @ template (access_token d))\<rparr>)
                     (setAccessToken (access_token d) s2)
               | (Inl refreshError, s2) \<Rightarrow> (Inl refreshError, s2\<lparr>accessToken := None\<rparr>))
          else (Inl error, s1))"
  by pat_completeness auto

lemma settle_config: "settle cfg r = Inl e \<Longrightarrow> config e = cfg"
  by (auto simp: settle_def split: reply.splits if_splits)

lemma dispatchRequest_config: "dispatchRequest net cfg s = (Inl e, s1) \<Longrightarrow> config e = cfg"
  by (auto simp: dispatchRequest_def Let_def dest: settle_config)

lemma request_interceptor_url [simp]: "url (request_interceptor t cfg) = url cfg"
  by (simp add: request_interceptor_def)

lemma request_interceptor_retry [simp]: "retry (request_interceptor t cfg) = retry cfg"
  by (simp add: request_interceptor_def)

lemma auth_endpoint_refresh [simp]: "auth_endpoint (post ''/auth/refresh'' d)"
  by (simp add: auth_endpoint_def post_def)

lemma auth_endpoint_request_interceptor [simp]:
  "auth_endpoint (request_interceptor t cfg) = auth_endpoint cfg"
  by (simp add: auth_endpoint_def)

termination api
  apply (relation "measure (\<lambda>(net, cfg, s). if retry cfg \<or> auth_endpoint cfg then 0 else (1::nat))")
    apply simp
   apply (auto dest!: dispatchRequest_config [OF sym])
  done

declare api.simps [simp del]

text \<open>The requests one call of \<open>api\<close> hands to the network.\<close>

definition sent_by :: "'w transport \<Rightarrow> config \<Rightarrow> 'w sys \<Rightarrow> config list" where
  "sent_by net cfg s = drop (length (wire s)) (wire (snd (api net cfg s)))"

subsection \<open>The service wrapper \<^verbatim>\<open>SafetyAPI\<close>\<close>

text \<open>Each wrapper awaits one call of \<open>api\<close> and returns \<^verbatim>\<open>response.data\<close>.\<close>

definition response_data :: "response \<Rightarrow> payload" where
  "response_data r = (case r of Response st d \<Rightarrow> d)"

definition SafetyAPI_login ::
  "'w transport \<Rightarrow> string \<Rightarrow> string \<Rightarrow> 'w sys \<Rightarrow> (failure + payload) \<times> 'w sys" where
  "SafetyAPI_login net email password s =
     (case api net (post ''/auth/login'' [email, password]) s of
        (Inl error, s1) \<Rightarrow> (Inl error, s1)
      | (Inr resp, s1) \<Rightarrow> (Inr (response_data resp), s1))"

definition SafetyAPI_logout :: "'w transport \<Rightarrow> 'w sys \<Rightarrow> (failure + unit) \<times> 'w sys" where
  "SafetyAPI_logout net s =
     (case api net (post ''/auth/logout'' []) s of
        (Inl error, s1) \<Rightarrow> (Inl error, s1)
      | (Inr resp, s1) \<Rightarrow> (Inr (), setAccessToken None s1))"

definition SafetyAPI_refreshToken ::
  "'w transport \<Rightarrow> 'w sys \<Rightarrow> (failure + payload) \<times> 'w sys" where
  "SafetyAPI_refreshToken net s =
     (case api net (post ''/auth/refresh'' []) s of
        (Inl error, s1) \<Rightarrow> (Inl error, s1)
      | (Inr resp, s1) \<Rightarrow>
          (Inr (response_data resp),
           if truthy (access_token (response_data resp))
           then setAccessToken (access_token (response_data resp)) s1 else s1))"

definition SafetyAPI_getMe :: "'w transport \<Rightarrow> 'w sys \<Rightarrow> (failure + payload) \<times> 'w sys" where
  "SafetyAPI_getMe net s =
     (case api net (get ''/auth/me'') s of
        (Inl error, s1) \<Rightarrow> (Inl error, s1)
      | (Inr resp, s1) \<Rightarrow> (Inr (response_data resp), s1))"

definition SafetyAPI_getStatus ::
  "'w transport \<Rightarrow> string \<Rightarrow> 'w sys \<Rightarrow> (failure + payload) \<times> 'w sys" where
  "SafetyAPI_getStatus net videoId s =
     (case api net (get (''/videos/'' @ videoId @ ''/status'')) s of
        (Inl error, s1) \<Rightarrow> (Inl error, s1)
      | (Inr resp, s1) \<Rightarrow> (Inr (response_data resp), s1))"

section \<open>The session (AuthContext.jsx)\<close>

text \<open>
  The state of \<^verbatim>\<open>AuthProvider\<close>: \<open>isAuthenticated\<close> is \<open>None\<close> while the session is
  being checked.  The provider's functions work on this state and on the state of
  the HTTP client; each is modelled as run to its end with no other task of the page
  running in between.
\<close>

record auth =
  user :: "payload option"
  isAuthenticated :: "bool option"
  loading :: bool

definition initial_auth :: auth where
  "initial_auth = \<lparr>user = None, isAuthenticated = None, loading = True\<rparr>"

definition console_log :: "log \<Rightarrow> 'w sys \<Rightarrow> 'w sys" where
  "console_log l s = s\<lparr>console := console s @ [l]\<rparr>"

text \<open>The \<^verbatim>\<open>catch\<close> and \<^verbatim>\<open>finally\<close> blocks of \<^verbatim>\<open>initAuth\<close>.\<close>

definition initAuth_catch :: "auth \<times> 'w sys \<Rightarrow> auth \<times> 'w sys" where
  "initAuth_catch as =
     (case as of (a, s) \<Rightarrow>
        (a\<lparr>isAuthenticated := Some False, user := None\<rparr>,
         setAccessToken None
           (console_log (Debug ''Session restoration failed (Normal if new user):'') s)))"

definition initAuth_finally :: "auth \<times> 'w sys \<Rightarrow> auth \<times> 'w sys" where
  "initAuth_finally as = (case as of (a, s) \<Rightarrow> (a\<lparr>loading := False\<rparr>, s))"

definition initAuth :: "'w transport \<Rightarrow> auth \<times> 'w sys \<Rightarrow> (failure + unit) \<times> auth \<times> 'w sys" where
  "initAuth net as =
     (case as of (a, s) \<Rightarrow>
        (Inr (),
         initAuth_finally
           (case SafetyAPI_refreshToken net s of
              (Inl err, s1) \<Rightarrow> initAuth_catch (a, s1)
            | (Inr d, s1) \<Rightarrow>
                (case SafetyAPI_getMe net s1 of
                   (Inl err, s2) \<Rightarrow> initAuth_catch (a, s2)
                 | (Inr userData, s2) \<Rightarrow>
                     (a\<lparr>user := Some userData, isAuthenticated := Some True\<rparr>, s2)))))"

definition login ::
  "'w transport \<Rightarrow> string \<Rightarrow> string \<Rightarrow> auth \<times> 'w sys \<Rightarrow> (failure + payload) \<times> auth \<times> 'w sys" where
  "login net email password as =
     (case as of (a, s) \<Rightarrow>
        (case SafetyAPI_login net email password s of
           (Inl error, s1) \<Rightarrow> (Inl error, a\<lparr>isAuthenticated := Some False\<rparr>, s1)
         | (Inr d, s1) \<Rightarrow>
             (case SafetyAPI_getMe net (setAccessToken (access_token d) s1) of
                (Inl error, s2) \<Rightarrow> (Inl error, a\<lparr>isAuthenticated := Some False\<rparr>, s2)
              | (Inr userData, s2) \<Rightarrow>
                  (Inr d, a\<lparr>user := Some userData, isAuthenticated := Some True\<rparr>, s2))))"

definition logout :: "'w transport \<Rightarrow> auth \<times> 'w sys \<Rightarrow> (failure + unit) \<times> auth \<times> 'w sys" where
  "logout net as =
     (case as of (a, s) \<Rightarrow>
        (let s1 = (case SafetyAPI_logout net s of
                     (Inl err, s') \<Rightarrow> console_log (Warn ''Logout API call failed'') s'
                   | (Inr u, s') \<Rightarrow> s')
         in (Inr (), a\<lparr>user := None, isAuthenticated := Some False\<rparr>, setAccessToken None s1)))"


section \<open>The response interceptor under interleaving\<close>

text \<open>
  \<open>api\<close> above follows one call to its end.  The page runs many calls at once: a
  single thread on which each task runs until its next \<^verbatim>\<open>await\<close>, and the arrival of
  a reply resumes the task that waits for it.  The machine below is the same
  interceptor cut at its \<^verbatim>\<open>await\<close>s.  A task is one call \<^verbatim>\<open>api(config)\<close>: its request
  is on the wire (\<open>InFlight\<close>), or its handler awaits the refresh call it made, task
  \<open>j\<close> (\<open>Refreshing j\<close>), or its promise is settled.  \<open>waiter\<close> is the task whose handler
  awaits this one.  \<open>sent\<close> lists the requests handed to the network with the task
  each belongs to.
\<close>

datatype stage = InFlight | Refreshing nat | Settled "failure + response"

record task =
  request :: config
  stage :: stage
  waiter :: "nat option"

record page =
  token :: "string option"
  tasks :: "task list"
  sent :: "(nat \<times> config) list"

datatype event = Call config | Arrive nat reply

text \<open>\<^verbatim>\<open>api(cfg)\<close> up to the network: the request interceptor runs and a task is born.\<close>

definition start :: "config \<Rightarrow> nat option \<Rightarrow> page \<Rightarrow> page" where
  "start cfg w p =
     (let c = request_interceptor (token p) cfg
      in p\<lparr>tasks := tasks p @ [\<lparr>request = c, stage = InFlight, waiter = w\<rparr>],
           sent := sent p @ [(length (tasks p), c)]\<rparr>)"

text \<open>
  The handler of task \<open>i\<close> after \<^verbatim>\<open>await api.post("/auth/refresh")\<close>: on success it
  stores the token and sends the original request again; on failure it clears the
  token and rejects.  Only a call that is not itself a refresh gets this far, and
  only refresh calls have a waiter, so the task settled here has none.
\<close>

definition resume :: "nat \<Rightarrow> failure + response \<Rightarrow> page \<Rightarrow> page" where
  "resume i r p =
     (case r of
        Inr (Response st d) \<Rightarrow>
          (let originalRequest =
                 (request (tasks p ! i))\<lparr>authorization :=
                    Some (''Bearer '' @ template (access_token d))\<rparr>;
               c = request_interceptor (access_token d) originalRequest
           in p\<lparr>token := access_token d,
                tasks := (tasks p)[i := (tasks p ! i)\<lparr>request := c, stage := InFlight\<rparr>],
                sent := sent p @ [(i, c)]\<rparr>)
      | Inl refreshError \<Rightarrow>
          p\<lparr>token := None,
            tasks := (tasks p)[i := (tasks p ! i)\<lparr>stage := Settled (Inl refreshError)\<rparr>]\<rparr>)"

text \<open>The promise of task \<open>i\<close> settles, and the handler that awaits it goes on.\<close>

definition finish :: "nat \<Rightarrow> failure + response \<Rightarrow> page \<Rightarrow> page" where
  "finish i r p =
     (let p1 = p\<lparr>tasks := (tasks p)[i := (tasks p ! i)\<lparr>stage := Settled r\<rparr>]\<rparr>
      in case waiter (tasks p ! i) of None \<Rightarrow> p1 | Some j \<Rightarrow> resume j r p1)"

text \<open>The reply to the request of task \<open>i\<close> arrives: the response interceptor runs.\<close>

definition arrive :: "nat \<Rightarrow> reply \<Rightarrow> page \<Rightarrow> page" where
  "arrive i r p =
     (if i < length (tasks p) \<and> stage (tasks p ! i) = InFlight then
        (case settle (request (tasks p ! i)) r of
           Inr resp \<Rightarrow> finish i (Inr resp) p
         | Inl error \<Rightarrow>
             if unauthorized error \<and> \<not> retry (config error) then
               if auth_endpoint (config error) then finish i (Inl error) p
               else
                 start (post ''/auth/refresh'' []) (Some i)
                   (p\<lparr>tasks := (tasks p)[i := (tasks p ! i)
                          \<lparr>request := (config error)\<lparr>retry := True\<rparr>,
                             stage := Refreshing (length (tasks p))\<rparr>]\<rparr>)
             else finish i (Inl error) p)
      else p)"

fun step :: "event \<Rightarrow> page \<Rightarrow> page" where
  "step (Call cfg) p = start cfg None p"
| "step (Arrive i r) p = arrive i r p"

fun run :: "event list \<Rightarrow> page \<Rightarrow> page" where
  "run [] p = p"
| "run (e # es) p = run es (step e p)"

text \<open>
  One call alone on the page, served by a transport: the reply to the request in
  flight is fetched and delivered, at most \<open>n\<close> times.
\<close>

fun first_in_flight :: "task list \<Rightarrow> nat option" where
  "first_in_flight [] = None"
| "first_in_flight (t # ts) =
     (if stage t = InFlight then Some 0 else map_option Suc (first_in_flight ts))"

fun serve :: "nat \<Rightarrow> 'w transport \<Rightarrow> 'w \<times> page \<Rightarrow> 'w \<times> page" where
  "serve 0 net wp = wp"
| "serve (Suc n) net wp =
     (case first_in_flight (tasks (snd wp)) of
        None \<Rightarrow> wp
      | Some i \<Rightarrow>
          (case net (fst wp) (request (tasks (snd wp) ! i)) of
             (r, w') \<Rightarrow> serve n net (w', arrive i r (snd wp))))"

definition one_call :: "config \<Rightarrow> 'w sys \<Rightarrow> page" where
  "one_call cfg s = start cfg None \<lparr>token = accessToken s, tasks = [], sent = []\<rparr>"

text \<open>Observations: the refresh requests sent so far, and those still unanswered.\<close>

definition refresh_posts :: "page \<Rightarrow> (nat \<times> config) list" where
  "refresh_posts p = filter (\<lambda>ic. url (snd ic) = ''/auth/refresh'') (sent p)"

definition awaits_refresh_reply :: "task \<Rightarrow> bool" where
  "awaits_refresh_reply t = (stage t = InFlight \<and> url (request t) = ''/auth/refresh'')"

definition refreshes_in_flight :: "page \<Rightarrow> nat" where
  "refreshes_in_flight p = length (filter awaits_refresh_reply (tasks p))"

text \<open>A task whose 401 makes the handler start a refresh.\<close>

definition draws_refresh :: "page \<Rightarrow> nat \<Rightarrow> bool" where
  "draws_refresh p i =
     (i < length (tasks p) \<and> stage (tasks p ! i) = InFlight
      \<and> \<not> retry (request (tasks p ! i)) \<and> \<not> auth_endpoint (request (tasks p ! i)))"

section \<open>The upload workflow (Upload.jsx)\<close>

subsection \<open>Validation\<close>

record file_obj =
  file_name :: string
  file_size :: nat
  file_type :: string

record rule =
  rule_size :: nat
  ext :: "string list"
  mime :: string

definition LIMITS :: "(string \<times> rule) list" where
  "LIMITS =
     [(''image'', \<lparr>rule_size = 10, ext = [''jpg'', ''jpeg'', ''png'', ''bmp''], mime = ''image/''\<rparr>),
      (''pdf'', \<lparr>rule_size = 50, ext = [''pdf''], mime = ''application/pdf''\<rparr>),
      (''video'', \<lparr>rule_size = 100, ext = [''mp4'', ''mov'', ''avi'', ''mkv''], mime = ''video/''\<rparr>)]"

datatype js_error = TypeError

text \<open>
  The category is a string or \<^verbatim>\<open>null\<close>; as a property key \<^verbatim>\<open>null\<close> reads \<^verbatim>\<open>"null"\<close>.
  \<open>LIMITS\<close> is looked up among its own three keys; the keys every object inherits
  (\<^verbatim>\<open>constructor\<close>, \<^verbatim>\<open>toString\<close> and the like), which JavaScript finds as well, are
  left out: the component sets the category to \<^verbatim>\<open>image\<close>, \<^verbatim>\<open>pdf\<close> or \<^verbatim>\<open>video\<close>
  and to nothing else.  With no file in the list, \<^verbatim>\<open>selected[0]\<close> is undefined and
  reading its size throws.
\<close>

definition property_key :: "string option \<Rightarrow> string" where
  "property_key k = (case k of None \<Rightarrow> ''null'' | Some t \<Rightarrow> t)"

definition validateFiles :: "file_obj list \<Rightarrow> string option \<Rightarrow> js_error + string option" where
  "validateFiles selected type =
     (case map_of LIMITS (property_key type) of
        None \<Rightarrow> Inr (Some ''Unknown type'')
      | Some rule \<Rightarrow>
          if length selected > 1 then Inr (Some ''Please select only one file'')
          else
            (case selected of
               [] \<Rightarrow> Inl TypeError
             | file # rest \<Rightarrow>
                 if file_size file > rule_size rule * 1024 * 1024 then
                   Inr (Some (''File size exceeds '' @ decimal (rule_size rule) @ ''MB limit''))
                 else if type = Some ''pdf'' \<and> file_type file \<noteq> ''application/pdf'' then
                   Inr (Some ''Invalid PDF file'')
                 else if type = Some ''image'' \<and> \<not> startsWith (file_type file) ''image/'' then
                   Inr (Some ''Invalid image file'')
                 else if type = Some ''video'' \<and> \<not> startsWith (file_type file) ''video/'' then
                   Inr (Some ''Invalid video file'')
                 else Inr None))"

subsection \<open>The component's state\<close>

text \<open>
  The state of \<^verbatim>\<open>Upload\<close>, with the \<^verbatim>\<open>onUploadComplete\<close> prop (as the identity of the
  function passed, \<open>None\<close> when there is none), whether the interval made by the last
  run of the polling effect is live, and the identifiers \<^verbatim>\<open>onUploadComplete\<close> was
  called with.
\<close>

record upload =
  selectedType :: "string option"
  files :: "file_obj list"
  status :: string
  uploadId :: "string option"
  error :: "string option"
  onUploadComplete :: "nat option"
  interval :: bool
  completed :: "string option list"

definition handleFileSelect :: "file_obj list \<Rightarrow> upload \<Rightarrow> js_error + upload" where
  "handleFileSelect selected u =
     (if length selected = 0 then Inr u
      else
        (case validateFiles selected (selectedType u) of
           Inl e \<Rightarrow> Inl e
         | Inr err \<Rightarrow>
             if truthy err then Inr (u\<lparr>error := err\<rparr>)
             else Inr (u\<lparr>error := None, files := selected\<rparr>)))"

subsection \<open>Polling\<close>

text \<open>
  The callback of \<^verbatim>\<open>setInterval\<close>, run to its end.  A fetch that fails, and a body
  with no status (reading \<^verbatim>\<open>toUpperCase\<close> of undefined throws), end in \<^verbatim>\<open>catch\<close>.
\<close>

definition interval_callback :: "'w transport \<Rightarrow> upload \<times> 'w sys \<Rightarrow> upload \<times> 'w sys" where
  "interval_callback net us =
     (case us of (u, s0) \<Rightarrow>
        (case SafetyAPI_getStatus net (template (uploadId u)) s0 of
           (Inl err, s1) \<Rightarrow> (u, console_log (Error ''Polling error'') s1)
         | (Inr d, s1) \<Rightarrow>
             (case status_field d of
                None \<Rightarrow> (u, console_log (Error ''Polling error'') s1)
              | Some st \<Rightarrow>
                  (let s = toUpperCase st in
                   if s = ''PENDING'' \<or> s = ''PROCESSING'' then (u\<lparr>status := ''PROCESSING''\<rparr>, s1)
                   else if s = ''COMPLETED'' then
                     (u\<lparr>status := ''COMPLETED'', interval := False,
                        completed := completed u @
                          (if onUploadComplete u \<noteq> None then [uploadId u] else [])\<rparr>, s1)
                   else if s = ''FAILED'' then
                     (u\<lparr>status := ''FAILED'', error := Some ''Processing failed on server.'',
                        interval := False\<rparr>, s1)
                   else (u, s1)))))"

text \<open>
  The polling effect \<^verbatim>\<open>useEffect(..., [uploadId, status, onUploadComplete])\<close>.  Its body
  starts an interval unless there is no upload identifier or the status is
  \<^verbatim>\<open>"FAILED"\<close>; its cleanup clears that interval.  After a render in which one of the
  three dependencies differs from the last render, React runs the cleanup and then
  the body again.
\<close>

definition effect_body :: "upload \<Rightarrow> bool" where
  "effect_body u = (truthy (uploadId u) \<and> status u \<noteq> ''FAILED'')"

definition render :: "upload \<Rightarrow> upload \<Rightarrow> upload" where
  "render prev u =
     (if uploadId u \<noteq> uploadId prev \<or> status u \<noteq> status prev
         \<or> onUploadComplete u \<noteq> onUploadComplete prev
      then u\<lparr>interval := effect_body u\<rparr> else u)"

text \<open>One tick of the timer: nothing when no interval is live.\<close>

definition tick :: "'w transport \<Rightarrow> upload \<times> 'w sys \<Rightarrow> upload \<times> 'w sys" where
  "tick net us =
     (if interval (fst us) then
        (case interval_callback net us of (u', s') \<Rightarrow> (render (fst us) u', s'))
      else us)"

fun ticks :: "nat \<Rightarrow> 'w transport \<Rightarrow> upload \<times> 'w sys \<Rightarrow> upload \<times> 'w sys" where
  "ticks 0 net us = us"
| "ticks (Suc n) net us = ticks n net (tick net us)"

section \<open>Test doubles\<close>

text \<open>A transport that answers from a script, whatever the request, and then falls silent.\<close>

definition scripted :: "reply list transport" where
  "scripted w cfg = (case w of [] \<Rightarrow> (NoReply, []) | r # rs \<Rightarrow> (r, rs))"

definition empty_body :: payload where
  "empty_body = \<lparr>access_token = None, status_field = None, video_id = None, content = []\<rparr>"

definition token_body :: "string \<Rightarrow> payload" where
  "token_body t = empty_body\<lparr>access_token := Some t\<rparr>"

definition status_body :: "string \<Rightarrow> payload" where
  "status_body st = empty_body\<lparr>status_field := Some st\<rparr>"

definition profile_body :: payload where
  "profile_body = empty_body\<lparr>content := ''{email: a@b.com, role: viewer}''\<rparr>"

definition client :: "string option \<Rightarrow> reply list \<Rightarrow> reply list sys" where
  "client tok script = \<lparr>accessToken = tok, world = script, wire = [], console = []\<rparr>"

definition signed_in :: auth where
  "signed_in = \<lparr>user = Some profile_body, isAuthenticated = Some True, loading = False\<rparr>"

definition empty_page :: page where
  "empty_page = \<lparr>token = Some ''old'', tasks = [], sent = []\<rparr>"

definition processing :: upload where
  "processing =
     \<lparr>selectedType = Some ''video'', files = [], status = ''PROCESSING'', uploadId = Some ''42'',
      error = None, onUploadComplete = Some 0, interval = True, completed = []\<rparr>"

text \<open>A transport that gives every request the same answer.\<close>

definition always :: "reply \<Rightarrow> unit transport" where
  "always r w cfg = (r, w)"

definition photo :: file_obj where
  "photo = \<lparr>file_name = ''site.png'', file_size = 2097152, file_type = ''image/png''\<rparr>"

definition movie :: file_obj where
  "movie = \<lparr>file_name = ''site.png'', file_size = 2097152, file_type = ''video/mp4''\<rparr>"

definition choosing :: upload where
  "choosing =
     \<lparr>selectedType = Some ''image'', files = [photo], status = ''IDLE'', uploadId = None,
      error = None, onUploadComplete = Some 0, interval = False, completed = []\<rparr>"

definition two_calls :: page where
  "two_calls = run [Call (get ''/results/summary''), Call (get ''/results/violations'')] empty_page"

section \<open>Properties of the gateway\<close>

lemma dispatchRequest_eq:
  "dispatchRequest net cfg s = (r, s1) \<Longrightarrow>
     accessToken s1 = accessToken s \<and> console s1 = console s \<and> wire s1 = wire s @ [cfg]"
  by (auto simp: dispatchRequest_def Let_def)

lemma dispatchRequest_wire [simp]:
  "wire (snd (dispatchRequest net cfg s)) = wire s @ [cfg]"
  by (simp add: dispatchRequest_def Let_def)

lemma dispatchRequest_console [simp]:
  "console (snd (dispatchRequest net cfg s)) = console s"
  by (simp add: dispatchRequest_def Let_def)

lemma request_interceptor_verb [simp]: "verb (request_interceptor t cfg) = verb cfg"
  by (simp add: request_interceptor_def)

lemma request_interceptor_body [simp]: "body (request_interceptor t cfg) = body cfg"
  by (simp add: request_interceptor_def)

lemma setAccessToken_wire [simp]: "wire (setAccessToken t s) = wire s"
  by (simp add: setAccessToken_def)

text \<open>
  A call whose request is marked \<^verbatim>\<open>_retry\<close>, or goes to the login or refresh endpoint,
  is one transmission and nothing more.
\<close>

lemma api_leaf:
  assumes "retry cfg \<or> auth_endpoint cfg"
  shows "api net cfg s = dispatchRequest net (request_interceptor (accessToken s) cfg) s"
proof (cases "dispatchRequest net (request_interceptor (accessToken s) cfg) s")
  case (Pair r s1)
  show ?thesis
  proof (cases r)
    case (Inl e)
    with Pair have "config e = request_interceptor (accessToken s) cfg"
      by (auto dest: dispatchRequest_config)
    with assms Pair Inl show ?thesis
      by (subst api.simps) auto
  next
    case (Inr resp)
    with Pair show ?thesis by (subst api.simps) simp
  qed
qed

text \<open>Any other call, with the two inner calls unfolded.\<close>

lemma api_unfold:
  assumes "\<not> retry cfg" "\<not> auth_endpoint cfg"
  shows "api net cfg s =
     (case dispatchRequest net (request_interceptor (accessToken s) cfg) s of
        (Inr resp, s1) \<Rightarrow> (Inr resp, s1)
      | (Inl err, s1) \<Rightarrow>
          if unauthorized err then
            (case dispatchRequest net (request_interceptor (accessToken s) (post ''/auth/refresh'' [])) s1 of
               (Inr (Response st d), s2) \<Rightarrow>
                  dispatchRequest net
                    (request_interceptor (access_token d)
                       ((request_interceptor (accessToken s) cfg)\<lparr>retry := True,
                          authorization := Some (''Bearer '' @ template (access_token d))\<rparr>))
                    (setAccessToken (access_token d) s2)
             | (Inl refreshError, s2) \<Rightarrow> (Inl refreshError, s2\<lparr>accessToken := None\<rparr>))
          else (Inl err, s1))"
proof (cases "dispatchRequest net (request_interceptor (accessToken s) cfg) s")
  case (Pair r s1)
  show ?thesis
  proof (cases r)
    case (Inl e)
    with Pair have c: "config e = request_interceptor (accessToken s) cfg"
      by (auto dest: dispatchRequest_config)
    from Pair have t: "accessToken s1 = accessToken s"
      by (auto dest: dispatchRequest_eq)
    show ?thesis
      using Pair Inl assms c t
      by (subst api.simps)
        (simp add: api_leaf setAccessToken_def split: prod.splits sum.splits response.splits)
  next
    case (Inr resp)
    with Pair show ?thesis by (subst api.simps) simp
  qed
qed

lemma api_sent:
  "sent_by net cfg s = [request_interceptor (accessToken s) cfg] \<or>
   sent_by net cfg s = [request_interceptor (accessToken s) cfg,
                        request_interceptor (accessToken s) (post ''/auth/refresh'' [])] \<or>
   (\<exists>c2. sent_by net cfg s = [request_interceptor (accessToken s) cfg,
                        request_interceptor (accessToken s) (post ''/auth/refresh'' []), c2]
        \<and> retry c2 \<and> url c2 = url cfg \<and> verb c2 = verb cfg \<and> body c2 = body cfg)"
proof (cases "retry cfg \<or> auth_endpoint cfg")
  case True
  then show ?thesis by (simp add: sent_by_def api_leaf)
next
  case False
  then have u: "\<not> retry cfg" "\<not> auth_endpoint cfg" by auto
  define c1 where "c1 = request_interceptor (accessToken s) cfg"
  define rf where "rf = request_interceptor (accessToken s) (post ''/auth/refresh'' [])"
  obtain r1 s1 where d1: "dispatchRequest net c1 s = (r1, s1)" by (cases "dispatchRequest net c1 s")
  have w1: "wire s1 = wire s @ [c1]" using dispatchRequest_eq [OF d1] by simp
  obtain r2 s2 where d2: "dispatchRequest net rf s1 = (r2, s2)" by (cases "dispatchRequest net rf s1")
  have w2: "wire s2 = wire s @ [c1, rf]" using dispatchRequest_eq [OF d2] w1 by simp
  note unf = api_unfold [OF u, of net s, folded c1_def rf_def]
  show ?thesis
  proof (cases r1)
    case (Inr resp)
    then have "sent_by net cfg s = [c1]" by (simp add: sent_by_def unf d1 w1)
    then show ?thesis by (simp add: c1_def)
  next
    case e: (Inl err)
    show ?thesis
    proof (cases "unauthorized err")
      case False
      with e have "sent_by net cfg s = [c1]" by (simp add: sent_by_def unf d1 w1)
      then show ?thesis by (simp add: c1_def)
    next
      case True
      show ?thesis
      proof (cases r2)
        case (Inl refreshError)
        with e True have "sent_by net cfg s = [c1, rf]" by (simp add: sent_by_def unf d1 d2 w2)
        then show ?thesis by (simp add: c1_def rf_def)
      next
        case (Inr resp)
        obtain st d where resp: "resp = Response st d" by (cases resp)
        define c2 where "c2 = request_interceptor (access_token d)
           (c1\<lparr>retry := True, authorization := Some (''Bearer '' @ template (access_token d))\<rparr>)"
        from e True Inr resp have "sent_by net cfg s = [c1, rf, c2]"
          by (simp add: sent_by_def unf d1 d2 w2 c2_def)
        moreover have "retry c2" "url c2 = url cfg" "verb c2 = verb cfg" "body c2 = body cfg"
          by (simp_all add: c2_def c1_def)
        ultimately show ?thesis by (simp add: c1_def rf_def)
      qed
    qed
  qed
qed

lemma api_console: "console (snd (api net cfg s)) = console s"
proof (cases "retry cfg \<or> auth_endpoint cfg")
  case True
  then show ?thesis by (simp add: api_leaf)
next
  case False
  then have u: "\<not> retry cfg" "\<not> auth_endpoint cfg" by auto
  define c1 where "c1 = request_interceptor (accessToken s) cfg"
  define rf where "rf = request_interceptor (accessToken s) (post ''/auth/refresh'' [])"
  obtain r1 s1 where d1: "dispatchRequest net c1 s = (r1, s1)" by (cases "dispatchRequest net c1 s")
  have w1: "console s1 = console s" using dispatchRequest_eq [OF d1] by simp
  obtain r2 s2 where d2: "dispatchRequest net rf s1 = (r2, s2)" by (cases "dispatchRequest net rf s1")
  have w2: "console s2 = console s" using dispatchRequest_eq [OF d2] w1 by simp
  note unf = api_unfold [OF u, of net s, folded c1_def rf_def]
  show ?thesis
    by (cases r1; cases r2) (auto simp: unf d1 d2 w1 w2 setAccessToken_def split: response.splits)
qed

lemma isl_pairE:
  assumes "isl (fst x)"
  obtains e s1 where "x = (Inl e, s1)"
  using assms by (cases x; cases "fst x") auto

text \<open>
  C3.  Every call through the gateway puts on the wire its request alone, or its
  request and one refresh, or its request, one refresh and one resend marked
  \<^verbatim>\<open>_retry\<close>: a 401 starts at most one refresh and resend.  After a 401 and a
  refresh that succeeded, the outcome of the call is the outcome of that one resend as
  it stands, so a second 401 is handed to the caller as the failure.  A request
  already marked \<^verbatim>\<open>_retry\<close>, or sent to the login or refresh endpoint, is sent once
  and its outcome, a 401 included, is handed to the caller with no refresh.
\<close>

theorem gateway_retries_once:
  "(sent_by net cfg s = [request_interceptor (accessToken s) cfg] \<or>
    sent_by net cfg s = [request_interceptor (accessToken s) cfg,
                         request_interceptor (accessToken s) (post ''/auth/refresh'' [])] \<or>
    (\<exists>c2. sent_by net cfg s = [request_interceptor (accessToken s) cfg,
                         request_interceptor (accessToken s) (post ''/auth/refresh'' []), c2]
         \<and> retry c2 \<and> url c2 = url cfg \<and> verb c2 = verb cfg \<and> body c2 = body cfg))
   \<and> (\<forall>e1 s1 st d s2.
         \<not> retry cfg \<and> \<not> auth_endpoint cfg
         \<and> dispatchRequest net (request_interceptor (accessToken s) cfg) s = (Inl e1, s1)
         \<and> unauthorized e1
         \<and> dispatchRequest net (request_interceptor (accessToken s) (post ''/auth/refresh'' [])) s1
             = (Inr (Response st d), s2) \<longrightarrow>
         api net cfg s =
           dispatchRequest net
             ((request_interceptor (accessToken s) cfg)\<lparr>retry := True,
                authorization := Some (''Bearer '' @ template (access_token d))\<rparr>)
             (setAccessToken (access_token d) s2))
   \<and> (retry cfg \<or> auth_endpoint cfg \<longrightarrow>
        api net cfg s = dispatchRequest net (request_interceptor (accessToken s) cfg) s)
   \<and> (\<forall>d w. (retry cfg \<or> auth_endpoint cfg)
         \<and> net (world s) (request_interceptor (accessToken s) cfg) = (Reply 401 d, w) \<longrightarrow>
        fst (api net cfg s) =
          Inl \<lparr>config = request_interceptor (accessToken s) cfg, response = Some (401, d)\<rparr>
        \<and> sent_by net cfg s = [request_interceptor (accessToken s) cfg])"
proof (intro conjI impI allI)
  show "sent_by net cfg s = [request_interceptor (accessToken s) cfg] \<or>
    sent_by net cfg s = [request_interceptor (accessToken s) cfg,
                         request_interceptor (accessToken s) (post ''/auth/refresh'' [])] \<or>
    (\<exists>c2. sent_by net cfg s = [request_interceptor (accessToken s) cfg,
                         request_interceptor (accessToken s) (post ''/auth/refresh'' []), c2]
         \<and> retry c2 \<and> url c2 = url cfg \<and> verb c2 = verb cfg \<and> body c2 = body cfg)"
    by (rule api_sent)
next
  assume "retry cfg \<or> auth_endpoint cfg"
  then show "api net cfg s = dispatchRequest net (request_interceptor (accessToken s) cfg) s"
    by (rule api_leaf)
next
  fix d w
  assume h: "(retry cfg \<or> auth_endpoint cfg)
    \<and> net (world s) (request_interceptor (accessToken s) cfg) = (Reply 401 d, w)"
  then have a: "api net cfg s = dispatchRequest net (request_interceptor (accessToken s) cfg) s"
    by (simp add: api_leaf)
  show "fst (api net cfg s) =
          Inl \<lparr>config = request_interceptor (accessToken s) cfg, response = Some (401, d)\<rparr>"
    using h by (simp add: a dispatchRequest_def settle_def)
  show "sent_by net cfg s = [request_interceptor (accessToken s) cfg]"
    by (simp add: a sent_by_def)
next
  fix e1 s1 st d s2
  assume h: "\<not> retry cfg \<and> \<not> auth_endpoint cfg
         \<and> dispatchRequest net (request_interceptor (accessToken s) cfg) s = (Inl e1, s1)
         \<and> unauthorized e1
         \<and> dispatchRequest net (request_interceptor (accessToken s) (post ''/auth/refresh'' [])) s1
             = (Inr (Response st d), s2)"
  then have u: "\<not> retry cfg" "\<not> auth_endpoint cfg" by auto
  show "api net cfg s =
           dispatchRequest net
             ((request_interceptor (accessToken s) cfg)\<lparr>retry := True,
                authorization := Some (''Bearer '' @ template (access_token d))\<rparr>)
             (setAccessToken (access_token d) s2)"
    using h by (simp add: api_unfold [OF u] request_interceptor_def)
qed

theorem gateway_retries_once_witness:
  "\<not> retry (get ''/results/summary'') \<and> \<not> auth_endpoint (get ''/results/summary'')
   \<and> fst (api scripted (get ''/results/summary'')
        (client (Some ''old'')
           [Reply 401 empty_body, Reply 200 (token_body ''new''), Reply 401 empty_body]))
       = Inl \<lparr>config = (get ''/results/summary'')\<lparr>retry := True,
                           authorization := Some ''Bearer new''\<rparr>,
               response = Some (401, empty_body)\<rparr>
   \<and> retry ((get ''/results/summary'')\<lparr>retry := True\<rparr>)
   \<and> scripted [Reply 401 empty_body] ((get ''/results/summary'')\<lparr>retry := True\<rparr>)
       = (Reply 401 empty_body, [])
   \<and> fst (api scripted ((get ''/results/summary'')\<lparr>retry := True\<rparr>) (client None [Reply 401 empty_body]))
       = Inl \<lparr>config = (get ''/results/summary'')\<lparr>retry := True\<rparr>, response = Some (401, empty_body)\<rparr>
   \<and> sent_by scripted ((get ''/results/summary'')\<lparr>retry := True\<rparr>) (client None [Reply 401 empty_body])
       = [(get ''/results/summary'')\<lparr>retry := True\<rparr>]
   \<and> auth_endpoint (post ''/auth/login'' [''a@b.com'', ''pw''])
   \<and> fst (api scripted (post ''/auth/login'' [''a@b.com'', ''pw'']) (client None [Reply 401 empty_body]))
       = Inl \<lparr>config = post ''/auth/login'' [''a@b.com'', ''pw''], response = Some (401, empty_body)\<rparr>
   \<and> sent_by scripted (post ''/auth/login'' [''a@b.com'', ''pw'']) (client None [Reply 401 empty_body])
       = [post ''/auth/login'' [''a@b.com'', ''pw'']]"
proof -
  let ?g = "get ''/results/summary''"
  let ?s = "client (Some ''old'')
           [Reply 401 empty_body, Reply 200 (token_body ''new''), Reply 401 empty_body]"
  have u: "\<not> retry ?g \<and> \<not> auth_endpoint ?g"
    by (simp add: get_def auth_endpoint_def)
  have d1: "dispatchRequest scripted (request_interceptor (accessToken ?s) ?g) ?s =
      (Inl \<lparr>config = ?g\<lparr>authorization := Some ''Bearer old''\<rparr>, response = Some (401, empty_body)\<rparr>,
       \<lparr>accessToken = Some ''old'',
        world = [Reply 200 (token_body ''new''), Reply 401 empty_body],
        wire = [?g\<lparr>authorization := Some ''Bearer old''\<rparr>], console = []\<rparr>)"
    by (simp add: dispatchRequest_def scripted_def client_def settle_def request_interceptor_def
        truthy_def template_def get_def)
  have d2: "dispatchRequest scripted (request_interceptor (accessToken ?s) (post ''/auth/refresh'' []))
       \<lparr>accessToken = Some ''old'',
        world = [Reply 200 (token_body ''new''), Reply 401 empty_body],
        wire = [?g\<lparr>authorization := Some ''Bearer old''\<rparr>], console = []\<rparr> =
      (Inr (Response 200 (token_body ''new'')),
       \<lparr>accessToken = Some ''old'', world = [Reply 401 empty_body],
        wire = [?g\<lparr>authorization := Some ''Bearer old''\<rparr>,
                (post ''/auth/refresh'' [])\<lparr>authorization := Some ''Bearer old''\<rparr>],
        console = []\<rparr>)"
    by (simp add: dispatchRequest_def scripted_def client_def settle_def request_interceptor_def
        truthy_def template_def post_def)
  have un: "unauthorized \<lparr>config = ?g\<lparr>authorization := Some ''Bearer old''\<rparr>,
                           response = Some (401, empty_body)\<rparr>"
    by (simp add: unauthorized_def)
  from gateway_retries_once [of scripted ?g ?s] u d1 un d2
  have "api scripted ?g ?s =
      dispatchRequest scripted
        ((request_interceptor (accessToken ?s) ?g)\<lparr>retry := True,
            authorization := Some (''Bearer '' @ template (access_token (token_body ''new'')))\<rparr>)
        (setAccessToken (access_token (token_body ''new''))
           \<lparr>accessToken = Some ''old'', world = [Reply 401 empty_body],
            wire = [?g\<lparr>authorization := Some ''Bearer old''\<rparr>,
                    (post ''/auth/refresh'' [])\<lparr>authorization := Some ''Bearer old''\<rparr>],
            console = []\<rparr>)"
    by blast
  then have a: "fst (api scripted ?g ?s)
       = Inl \<lparr>config = ?g\<lparr>retry := True, authorization := Some ''Bearer new''\<rparr>,
               response = Some (401, empty_body)\<rparr>"
    by (simp add: dispatchRequest_def scripted_def client_def settle_def request_interceptor_def
        truthy_def template_def get_def token_body_def empty_body_def setAccessToken_def)
  let ?r = "?g\<lparr>retry := True\<rparr>"
  let ?l = "post ''/auth/login'' [''a@b.com'', ''pw'']"
  let ?t = "client None [Reply 401 empty_body]"
  have r: "retry ?r" by simp
  have n: "scripted [Reply 401 empty_body] ?r = (Reply 401 empty_body, [])"
    by (simp add: scripted_def)
  have ri: "request_interceptor (accessToken ?t) ?r = ?r" "request_interceptor (accessToken ?t) ?l = ?l"
    by (simp_all add: request_interceptor_def client_def truthy_def)
  have w: "world ?t = [Reply 401 empty_body]" by (simp add: client_def)
  from gateway_retries_once [of scripted ?r ?t] r n
  have b: "fst (api scripted ?r ?t) = Inl \<lparr>config = ?r, response = Some (401, empty_body)\<rparr>
      \<and> sent_by scripted ?r ?t = [?r]"
    unfolding ri w by blast
  have l: "auth_endpoint ?l" by (simp add: auth_endpoint_def post_def)
  have n': "scripted [Reply 401 empty_body] ?l = (Reply 401 empty_body, [])"
    by (simp add: scripted_def)
  from gateway_retries_once [of scripted ?l ?t] l n'
  have c: "fst (api scripted ?l ?t) = Inl \<lparr>config = ?l, response = Some (401, empty_body)\<rparr>
      \<and> sent_by scripted ?l ?t = [?l]"
    unfolding ri w by blast
  show ?thesis using u a r n b l c by blast
qed

section \<open>Properties of the session\<close>

text \<open>
  C6.  \<^verbatim>\<open>logout()\<close> always returns normally, with the token cleared, no user and the
  session unauthenticated, whatever the logout request came to; when the request
  failed, the failure is a warning on the console and nothing else.
\<close>

theorem logout_always_clears:
  "fst (logout net (a, s)) = Inr ()
   \<and> accessToken (snd (snd (logout net (a, s)))) = None
   \<and> user (fst (snd (logout net (a, s)))) = None
   \<and> isAuthenticated (fst (snd (logout net (a, s)))) = Some False
   \<and> console (snd (snd (logout net (a, s)))) =
       console s @ (if isl (fst (SafetyAPI_logout net s)) then [Warn ''Logout API call failed''] else [])"
proof -
  obtain r s1 where l: "api net (post ''/auth/logout'' []) s = (r, s1)"
    by (cases "api net (post ''/auth/logout'' []) s")
  have c: "console s1 = console s" using api_console [of net "post ''/auth/logout'' []" s] l by simp
  show ?thesis
    by (cases r) (simp_all add: logout_def SafetyAPI_logout_def l c setAccessToken_def console_log_def)
qed

text \<open>
  C7.  \<^verbatim>\<open>initAuth\<close> always returns normally with \<open>loading = False\<close>.  When the refresh
  fails, or the refresh succeeds and the profile request fails, the session ends
  unauthenticated with no user and no token; nothing is thrown.  When both succeed the
  session ends authenticated with the profile fetched.
\<close>

theorem initAuth_outcome:
  "fst (initAuth net (a, s)) = Inr ()
   \<and> loading (fst (snd (initAuth net (a, s)))) = False
   \<and> (\<forall>err s1. SafetyAPI_refreshToken net s = (Inl err, s1) \<longrightarrow>
         isAuthenticated (fst (snd (initAuth net (a, s)))) = Some False
         \<and> user (fst (snd (initAuth net (a, s)))) = None
         \<and> accessToken (snd (snd (initAuth net (a, s)))) = None)
   \<and> (\<forall>d s1 err s2. SafetyAPI_refreshToken net s = (Inr d, s1) \<and> SafetyAPI_getMe net s1 = (Inl err, s2) \<longrightarrow>
         isAuthenticated (fst (snd (initAuth net (a, s)))) = Some False
         \<and> user (fst (snd (initAuth net (a, s)))) = None
         \<and> accessToken (snd (snd (initAuth net (a, s)))) = None)
   \<and> (\<forall>d s1 userData s2. SafetyAPI_refreshToken net s = (Inr d, s1) \<and> SafetyAPI_getMe net s1 = (Inr userData, s2) \<longrightarrow>
         initAuth net (a, s) =
           (Inr (), a\<lparr>user := Some userData, isAuthenticated := Some True, loading := False\<rparr>, s2))"
  by (auto simp: initAuth_def initAuth_finally_def initAuth_catch_def setAccessToken_def console_log_def
      split: prod.splits sum.splits)

theorem initAuth_outcome_witness:
  "isl (fst (SafetyAPI_refreshToken scripted (client None [])))
   \<and> isAuthenticated (fst (snd (initAuth scripted (initial_auth, client None [])))) = Some False
   \<and> user (fst (snd (initAuth scripted (initial_auth, client None [])))) = None
   \<and> accessToken (snd (snd (initAuth scripted (initial_auth, client None [])))) = None
   \<and> loading (fst (snd (initAuth scripted (initial_auth, client None [])))) = False
   \<and> fst (SafetyAPI_refreshToken scripted (client None [Reply 200 (token_body ''t1''), Reply 500 empty_body]))
       = Inr (token_body ''t1'')
   \<and> isl (fst (SafetyAPI_getMe scripted (snd (SafetyAPI_refreshToken scripted
            (client None [Reply 200 (token_body ''t1''), Reply 500 empty_body])))))
   \<and> isAuthenticated (fst (snd (initAuth scripted
            (initial_auth, client None [Reply 200 (token_body ''t1''), Reply 500 empty_body])))) = Some False
   \<and> accessToken (snd (snd (initAuth scripted
            (initial_auth, client None [Reply 200 (token_body ''t1''), Reply 500 empty_body])))) = None
   \<and> fst (SafetyAPI_refreshToken scripted
            (client None [Reply 200 (token_body ''t1''), Reply 200 profile_body]))
       = Inr (token_body ''t1'')
   \<and> fst (SafetyAPI_getMe scripted (snd (SafetyAPI_refreshToken scripted
            (client None [Reply 200 (token_body ''t1''), Reply 200 profile_body]))))
       = Inr profile_body
   \<and> fst (snd (initAuth scripted
            (initial_auth, client None [Reply 200 (token_body ''t1''), Reply 200 profile_body])))
       = \<lparr>user = Some profile_body, isAuthenticated = Some True, loading = False\<rparr>"
proof -
  let ?s = "client None []"
  let ?m = "client None [Reply 200 (token_body ''t1''), Reply 500 empty_body]"
  let ?s' = "client None [Reply 200 (token_body ''t1''), Reply 200 profile_body]"
  have h1: "isl (fst (SafetyAPI_refreshToken scripted ?s))" by code_simp
  then obtain err s1 where r1: "SafetyAPI_refreshToken scripted ?s = (Inl err, s1)"
    by (rule isl_pairE)
  have c1: "isAuthenticated (fst (snd (initAuth scripted (initial_auth, ?s)))) = Some False
     \<and> user (fst (snd (initAuth scripted (initial_auth, ?s)))) = None
     \<and> accessToken (snd (snd (initAuth scripted (initial_auth, ?s)))) = None
     \<and> loading (fst (snd (initAuth scripted (initial_auth, ?s)))) = False"
    using initAuth_outcome [of scripted initial_auth ?s] r1 by blast
  have m2: "fst (SafetyAPI_refreshToken scripted ?m) = Inr (token_body ''t1'')" by code_simp
  then obtain t2 where q2: "SafetyAPI_refreshToken scripted ?m = (Inr (token_body ''t1''), t2)"
    by (cases "SafetyAPI_refreshToken scripted ?m") auto
  have m3: "isl (fst (SafetyAPI_getMe scripted (snd (SafetyAPI_refreshToken scripted ?m))))"
    by code_simp
  then obtain err' t3 where q3: "SafetyAPI_getMe scripted t2 = (Inl err', t3)"
    using q2 by (auto elim: isl_pairE)
  have cm: "isAuthenticated (fst (snd (initAuth scripted (initial_auth, ?m)))) = Some False
     \<and> accessToken (snd (snd (initAuth scripted (initial_auth, ?m)))) = None"
    using initAuth_outcome [of scripted initial_auth ?m] q2 q3 by blast
  have h2: "fst (SafetyAPI_refreshToken scripted ?s') = Inr (token_body ''t1'')" by code_simp
  then obtain s2 where r2: "SafetyAPI_refreshToken scripted ?s' = (Inr (token_body ''t1''), s2)"
    by (cases "SafetyAPI_refreshToken scripted ?s'") auto
  have h3: "fst (SafetyAPI_getMe scripted (snd (SafetyAPI_refreshToken scripted ?s'))) = Inr profile_body"
    by code_simp
  then obtain s3 where r3: "SafetyAPI_getMe scripted s2 = (Inr profile_body, s3)"
    using r2 by (cases "SafetyAPI_getMe scripted s2") auto
  have "initAuth scripted (initial_auth, ?s') =
      (Inr (), initial_auth\<lparr>user := Some profile_body, isAuthenticated := Some True, loading := False\<rparr>, s3)"
    using initAuth_outcome [of scripted initial_auth ?s'] r2 r3 by blast
  then have c2: "fst (snd (initAuth scripted (initial_auth, ?s')))
       = \<lparr>user = Some profile_body, isAuthenticated = Some True, loading = False\<rparr>"
    by (simp add: initial_auth_def)
  show ?thesis using h1 c1 m2 m3 cm h2 h3 c2 by blast
qed




text \<open>
  C9, as the code has it.  When the login request succeeds and the profile request
  fails, \<^verbatim>\<open>login()\<close> throws that failure and sets the session unauthenticated; it
  leaves \<open>user\<close> as it was and does nothing to the token, which is what the gateway
  left behind while it handled the profile request: the token the login response
  issued when the profile request fails on its first reply with anything but a 401;
  none when that reply is a 401 and the refresh that follows fails; the token of the
  refresh when the refresh succeeds and the profile request, sent again, fails.
\<close>

theorem login_profile_failure:
  "(\<forall>d s1 err s2.
       SafetyAPI_login net email password s = (Inr d, s1)
       \<and> SafetyAPI_getMe net (setAccessToken (access_token d) s1) = (Inl err, s2) \<longrightarrow>
       login net email password (a, s) = (Inl err, a\<lparr>isAuthenticated := Some False\<rparr>, s2)
       \<and> user (fst (snd (login net email password (a, s)))) = user a)
   \<and> (\<forall>d s1 err s2.
       SafetyAPI_login net email password s = (Inr d, s1)
       \<and> dispatchRequest net (request_interceptor (access_token d) (get ''/auth/me''))
            (setAccessToken (access_token d) s1) = (Inl err, s2)
       \<and> \<not> unauthorized err \<longrightarrow>
       login net email password (a, s) = (Inl err, a\<lparr>isAuthenticated := Some False\<rparr>, s2)
       \<and> accessToken s2 = access_token d)
   \<and> (\<forall>d s1 err s2 refreshError s3.
       SafetyAPI_login net email password s = (Inr d, s1)
       \<and> dispatchRequest net (request_interceptor (access_token d) (get ''/auth/me''))
            (setAccessToken (access_token d) s1) = (Inl err, s2)
       \<and> unauthorized err
       \<and> api net (post ''/auth/refresh'' []) s2 = (Inl refreshError, s3) \<longrightarrow>
       login net email password (a, s) =
         (Inl refreshError, a\<lparr>isAuthenticated := Some False\<rparr>, s3\<lparr>accessToken := None\<rparr>)
       \<and> accessToken (snd (snd (login net email password (a, s)))) = None)
   \<and> (\<forall>d s1 err s2 st d' s3 err' s4.
       SafetyAPI_login net email password s = (Inr d, s1)
       \<and> dispatchRequest net (request_interceptor (access_token d) (get ''/auth/me''))
            (setAccessToken (access_token d) s1) = (Inl err, s2)
       \<and> unauthorized err
       \<and> api net (post ''/auth/refresh'' []) s2 = (Inr (Response st d'), s3)
       \<and> dispatchRequest net
            ((request_interceptor (access_token d) (get ''/auth/me''))\<lparr>retry := True,
               authorization := Some (''Bearer '' @ template (access_token d'))\<rparr>)
            (setAccessToken (access_token d') s3) = (Inl err', s4) \<longrightarrow>
       login net email password (a, s) = (Inl err', a\<lparr>isAuthenticated := Some False\<rparr>, s4)
       \<and> accessToken s4 = access_token d')"
proof (intro conjI allI impI)
  fix d s1 err s2
  assume h: "SafetyAPI_login net email password s = (Inr d, s1)
       \<and> SafetyAPI_getMe net (setAccessToken (access_token d) s1) = (Inl err, s2)"
  then show l: "login net email password (a, s) = (Inl err, a\<lparr>isAuthenticated := Some False\<rparr>, s2)"
    by (simp add: login_def)
  show "user (fst (snd (login net email password (a, s)))) = user a"
    by (simp add: l)
next
  fix d s1 err s2
  assume h: "SafetyAPI_login net email password s = (Inr d, s1)
       \<and> dispatchRequest net (request_interceptor (access_token d) (get ''/auth/me''))
            (setAccessToken (access_token d) s1) = (Inl err, s2)
       \<and> \<not> unauthorized err"
  have u: "\<not> retry (get ''/auth/me'')" "\<not> auth_endpoint (get ''/auth/me'')"
    by (simp_all add: get_def auth_endpoint_def)
  have t: "accessToken (setAccessToken (access_token d) s1) = access_token d"
    by (simp add: setAccessToken_def)
  from h have "SafetyAPI_getMe net (setAccessToken (access_token d) s1) = (Inl err, s2)"
    by (simp add: SafetyAPI_getMe_def api_unfold [OF u] t)
  with h show "login net email password (a, s) = (Inl err, a\<lparr>isAuthenticated := Some False\<rparr>, s2)"
    by (simp add: login_def)
  from h show "accessToken s2 = access_token d"
    using t by (auto dest: dispatchRequest_eq)
next
  fix d s1 err s2 refreshError s3
  assume h: "SafetyAPI_login net email password s = (Inr d, s1)
       \<and> dispatchRequest net (request_interceptor (access_token d) (get ''/auth/me''))
            (setAccessToken (access_token d) s1) = (Inl err, s2)
       \<and> unauthorized err
       \<and> api net (post ''/auth/refresh'' []) s2 = (Inl refreshError, s3)"
  have u: "\<not> retry (get ''/auth/me'')" "\<not> auth_endpoint (get ''/auth/me'')"
    by (simp_all add: get_def auth_endpoint_def)
  have t: "accessToken (setAccessToken (access_token d) s1) = access_token d"
    by (simp add: setAccessToken_def)
  from h have t2: "accessToken s2 = access_token d"
    using t by (auto dest: dispatchRequest_eq)
  from h have "dispatchRequest net (request_interceptor (access_token d) (post ''/auth/refresh'' [])) s2
      = (Inl refreshError, s3)"
    by (simp add: api_leaf t2)
  with h have "SafetyAPI_getMe net (setAccessToken (access_token d) s1)
      = (Inl refreshError, s3\<lparr>accessToken := None\<rparr>)"
    by (simp add: SafetyAPI_getMe_def api_unfold [OF u] t)
  with h show l: "login net email password (a, s) =
         (Inl refreshError, a\<lparr>isAuthenticated := Some False\<rparr>, s3\<lparr>accessToken := None\<rparr>)"
    by (simp add: login_def)
  show "accessToken (snd (snd (login net email password (a, s)))) = None"
    by (simp add: l)
next
  fix d s1 err s2 st d' s3 err' s4
  assume h: "SafetyAPI_login net email password s = (Inr d, s1)
       \<and> dispatchRequest net (request_interceptor (access_token d) (get ''/auth/me''))
            (setAccessToken (access_token d) s1) = (Inl err, s2)
       \<and> unauthorized err
       \<and> api net (post ''/auth/refresh'' []) s2 = (Inr (Response st d'), s3)
       \<and> dispatchRequest net
            ((request_interceptor (access_token d) (get ''/auth/me''))\<lparr>retry := True,
               authorization := Some (''Bearer '' @ template (access_token d'))\<rparr>)
            (setAccessToken (access_token d') s3) = (Inl err', s4)"
  have u: "\<not> retry (get ''/auth/me'')" "\<not> auth_endpoint (get ''/auth/me'')"
    by (simp_all add: get_def auth_endpoint_def)
  have t: "accessToken (setAccessToken (access_token d) s1) = access_token d"
    by (simp add: setAccessToken_def)
  from h have t2: "accessToken s2 = access_token d"
    using t by (auto dest: dispatchRequest_eq)
  from h have r: "dispatchRequest net (request_interceptor (access_token d) (post ''/auth/refresh'' [])) s2
      = (Inr (Response st d'), s3)"
    by (simp add: api_leaf t2)
  have ri: "request_interceptor (access_token d')
       ((request_interceptor (access_token d) (get ''/auth/me''))\<lparr>retry := True,
               authorization := Some (''Bearer '' @ template (access_token d'))\<rparr>)
     = (request_interceptor (access_token d) (get ''/auth/me''))\<lparr>retry := True,
               authorization := Some (''Bearer '' @ template (access_token d'))\<rparr>"
    by (simp add: request_interceptor_def)
  from h r have "SafetyAPI_getMe net (setAccessToken (access_token d) s1) = (Inl err', s4)"
    by (simp add: SafetyAPI_getMe_def api_unfold [OF u] t ri [simplified])
  with h show "login net email password (a, s) = (Inl err', a\<lparr>isAuthenticated := Some False\<rparr>, s4)"
    by (simp add: login_def)
  from h show "accessToken s4 = access_token d'"
    by (auto dest!: dispatchRequest_eq simp: setAccessToken_def)
qed

theorem login_profile_failure_witness:
  "fst (SafetyAPI_login scripted ''a@b.com'' ''pw''
          (client None [Reply 200 (token_body ''fresh''), Reply 500 empty_body]))
     = Inr (token_body ''fresh'')
   \<and> isl (fst (SafetyAPI_getMe scripted (setAccessToken (Some ''fresh'')
          (snd (SafetyAPI_login scripted ''a@b.com'' ''pw''
             (client None [Reply 200 (token_body ''fresh''), Reply 500 empty_body]))))))
   \<and> isl (fst (login scripted ''a@b.com'' ''pw''
          (signed_in, client None [Reply 200 (token_body ''fresh''), Reply 500 empty_body])))
   \<and> fst (snd (login scripted ''a@b.com'' ''pw''
          (signed_in, client None [Reply 200 (token_body ''fresh''), Reply 500 empty_body])))
       = signed_in\<lparr>isAuthenticated := Some False\<rparr>
   \<and> user (fst (snd (login scripted ''a@b.com'' ''pw''
          (signed_in, client None [Reply 200 (token_body ''fresh''), Reply 500 empty_body]))))
       = Some profile_body
   \<and> accessToken (snd (snd (login scripted ''a@b.com'' ''pw''
          (signed_in, client None [Reply 200 (token_body ''fresh''), Reply 500 empty_body]))))
       = Some ''fresh''
   \<and> fst (SafetyAPI_login scripted ''a@b.com'' ''pw''
          (client None [Reply 200 (token_body ''fresh''), Reply 401 empty_body, Reply 401 empty_body]))
     = Inr (token_body ''fresh'')
   \<and> isl (fst (api scripted (post ''/auth/refresh'' [])
          (snd (dispatchRequest scripted (request_interceptor (Some ''fresh'') (get ''/auth/me''))
            (setAccessToken (Some ''fresh'')
              (snd (SafetyAPI_login scripted ''a@b.com'' ''pw''
                (client None [Reply 200 (token_body ''fresh''), Reply 401 empty_body,
                              Reply 401 empty_body]))))))))
   \<and> accessToken (snd (snd (login scripted ''a@b.com'' ''pw''
          (signed_in, client None [Reply 200 (token_body ''fresh''), Reply 401 empty_body,
                                   Reply 401 empty_body]))))
       = None
   \<and> fst (api scripted (post ''/auth/refresh'' [])
          (snd (dispatchRequest scripted (request_interceptor (Some ''fresh'') (get ''/auth/me''))
            (setAccessToken (Some ''fresh'')
              (snd (SafetyAPI_login scripted ''a@b.com'' ''pw''
                (client None [Reply 200 (token_body ''fresh''), Reply 401 empty_body,
                              Reply 200 (token_body ''renewed''), Reply 500 empty_body])))))))
     = Inr (Response 200 (token_body ''renewed''))
   \<and> isl (fst (login scripted ''a@b.com'' ''pw''
          (signed_in, client None [Reply 200 (token_body ''fresh''), Reply 401 empty_body,
                                   Reply 200 (token_body ''renewed''), Reply 500 empty_body])))
   \<and> accessToken (snd (snd (login scripted ''a@b.com'' ''pw''
          (signed_in, client None [Reply 200 (token_body ''fresh''), Reply 401 empty_body,
                                   Reply 200 (token_body ''renewed''), Reply 500 empty_body]))))
       = Some ''renewed''"
proof -
  let ?e = "''a@b.com''" and ?p = "''pw''"
  let ?d = "token_body ''fresh''" and ?n = "token_body ''renewed''"
  let ?me = "request_interceptor (access_token ?d) (get ''/auth/me'')"
  have at: "access_token ?d = Some ''fresh''" "access_token ?n = Some ''renewed''"
    by (simp_all add: token_body_def)
  have up: "user signed_in = Some profile_body" by (simp add: signed_in_def)

  txt \<open>The profile request fails with a 500.\<close>
  let ?s = "client None [Reply 200 ?d, Reply 500 empty_body]"
  have a1: "fst (SafetyAPI_login scripted ?e ?p ?s) = Inr ?d" by code_simp
  then obtain s1 where l: "SafetyAPI_login scripted ?e ?p ?s = (Inr ?d, s1)"
    by (cases "SafetyAPI_login scripted ?e ?p ?s") auto
  have a2: "isl (fst (SafetyAPI_getMe scripted (setAccessToken (Some ''fresh'')
          (snd (SafetyAPI_login scripted ?e ?p ?s)))))"
    by code_simp
  then obtain err s2 where g: "SafetyAPI_getMe scripted (setAccessToken (access_token ?d) s1) = (Inl err, s2)"
    using l at by (auto elim: isl_pairE)
  have "isl (fst (dispatchRequest scripted (request_interceptor (Some ''fresh'') (get ''/auth/me''))
      (setAccessToken (Some ''fresh'') (snd (SafetyAPI_login scripted ?e ?p ?s)))))"
    by code_simp
  then obtain err' s2' where dr: "dispatchRequest scripted ?me
      (setAccessToken (access_token ?d) s1) = (Inl err', s2')"
    using l at by (auto elim: isl_pairE)
  have "\<not> unauthorized (projl (fst (dispatchRequest scripted
      (request_interceptor (Some ''fresh'') (get ''/auth/me''))
      (setAccessToken (Some ''fresh'') (snd (SafetyAPI_login scripted ?e ?p ?s))))))"
    by code_simp
  with dr l at have nu: "\<not> unauthorized err'" by simp
  from login_profile_failure [of scripted ?e ?p ?s signed_in, THEN conjunct1, rule_format, of ?d s1 err s2] l g
  have c1: "login scripted ?e ?p (signed_in, ?s) = (Inl err, signed_in\<lparr>isAuthenticated := Some False\<rparr>, s2)
      \<and> user (fst (snd (login scripted ?e ?p (signed_in, ?s)))) = user signed_in"
    by blast
  from login_profile_failure [of scripted ?e ?p ?s signed_in, THEN conjunct2, THEN conjunct1, rule_format, of ?d s1 err' s2'] l dr nu
  have c2: "login scripted ?e ?p (signed_in, ?s) = (Inl err', signed_in\<lparr>isAuthenticated := Some False\<rparr>, s2')
      \<and> accessToken s2' = access_token ?d"
    by blast

  txt \<open>The profile request draws a 401 and the refresh fails.\<close>
  let ?t = "client None [Reply 200 ?d, Reply 401 empty_body, Reply 401 empty_body]"
  have b1: "fst (SafetyAPI_login scripted ?e ?p ?t) = Inr ?d" by code_simp
  then obtain t1 where lt: "SafetyAPI_login scripted ?e ?p ?t = (Inr ?d, t1)"
    by (cases "SafetyAPI_login scripted ?e ?p ?t") auto
  have "isl (fst (dispatchRequest scripted (request_interceptor (Some ''fresh'') (get ''/auth/me''))
      (setAccessToken (Some ''fresh'') (snd (SafetyAPI_login scripted ?e ?p ?t)))))"
    by code_simp
  then obtain et t2 where dt: "dispatchRequest scripted ?me
      (setAccessToken (access_token ?d) t1) = (Inl et, t2)"
    using lt at by (auto elim: isl_pairE)
  have "unauthorized (projl (fst (dispatchRequest scripted
      (request_interceptor (Some ''fresh'') (get ''/auth/me''))
      (setAccessToken (Some ''fresh'') (snd (SafetyAPI_login scripted ?e ?p ?t))))))"
    by code_simp
  with dt lt at have ut: "unauthorized et" by simp
  have b2: "isl (fst (api scripted (post ''/auth/refresh'' [])
          (snd (dispatchRequest scripted (request_interceptor (Some ''fresh'') (get ''/auth/me''))
            (setAccessToken (Some ''fresh'') (snd (SafetyAPI_login scripted ?e ?p ?t)))))))"
    by code_simp
  then obtain re t3 where rt: "api scripted (post ''/auth/refresh'' []) t2 = (Inl re, t3)"
    using dt lt at by (auto elim: isl_pairE)
  from login_profile_failure [of scripted ?e ?p ?t signed_in, THEN conjunct2, THEN conjunct2, THEN conjunct1, rule_format, of ?d t1 et t2 re t3] lt dt ut rt
  have c3: "accessToken (snd (snd (login scripted ?e ?p (signed_in, ?t)))) = None"
    by blast

  txt \<open>The profile request draws a 401, the refresh succeeds, the resend fails.\<close>
  let ?v = "client None [Reply 200 ?d, Reply 401 empty_body, Reply 200 ?n, Reply 500 empty_body]"
  have "fst (SafetyAPI_login scripted ?e ?p ?v) = Inr ?d" by code_simp
  then obtain v1 where lv: "SafetyAPI_login scripted ?e ?p ?v = (Inr ?d, v1)"
    by (cases "SafetyAPI_login scripted ?e ?p ?v") auto
  have "isl (fst (dispatchRequest scripted (request_interceptor (Some ''fresh'') (get ''/auth/me''))
      (setAccessToken (Some ''fresh'') (snd (SafetyAPI_login scripted ?e ?p ?v)))))"
    by code_simp
  then obtain ev v2 where dv: "dispatchRequest scripted ?me
      (setAccessToken (access_token ?d) v1) = (Inl ev, v2)"
    using lv at by (auto elim: isl_pairE)
  have "unauthorized (projl (fst (dispatchRequest scripted
      (request_interceptor (Some ''fresh'') (get ''/auth/me''))
      (setAccessToken (Some ''fresh'') (snd (SafetyAPI_login scripted ?e ?p ?v))))))"
    by code_simp
  with dv lv at have uv: "unauthorized ev" by simp
  have d1: "fst (api scripted (post ''/auth/refresh'' [])
          (snd (dispatchRequest scripted (request_interceptor (Some ''fresh'') (get ''/auth/me''))
            (setAccessToken (Some ''fresh'') (snd (SafetyAPI_login scripted ?e ?p ?v))))))
     = Inr (Response 200 ?n)"
    by code_simp
  then obtain v3 where rv: "api scripted (post ''/auth/refresh'' []) v2 = (Inr (Response 200 ?n), v3)"
    using dv lv at by (cases "api scripted (post ''/auth/refresh'' []) v2") auto
  have "isl (fst (dispatchRequest scripted
      ((request_interceptor (Some ''fresh'') (get ''/auth/me''))\<lparr>retry := True,
          authorization := Some (''Bearer '' @ template (Some ''renewed''))\<rparr>)
      (setAccessToken (Some ''renewed'')
        (snd (api scripted (post ''/auth/refresh'' [])
          (snd (dispatchRequest scripted (request_interceptor (Some ''fresh'') (get ''/auth/me''))
            (setAccessToken (Some ''fresh'') (snd (SafetyAPI_login scripted ?e ?p ?v))))))))))"
    by code_simp
  then obtain ew v4 where dw: "dispatchRequest scripted
      (?me\<lparr>retry := True, authorization := Some (''Bearer '' @ template (access_token ?n))\<rparr>)
      (setAccessToken (access_token ?n) v3) = (Inl ew, v4)"
    using dv lv rv at by (auto elim: isl_pairE)
  from login_profile_failure [of scripted ?e ?p ?v signed_in, THEN conjunct2, THEN conjunct2, THEN conjunct2, rule_format, of ?d v1 ev v2 200 ?n v3 ew v4] lv dv uv rv dw
  have c4: "login scripted ?e ?p (signed_in, ?v) = (Inl ew, signed_in\<lparr>isAuthenticated := Some False\<rparr>, v4)
      \<and> accessToken v4 = access_token ?n"
    by blast
  show ?thesis using a1 a2 c1 c2 b1 b2 c3 d1 c4 at up by simp
qed

text \<open>
  The claim C9 as stated fails twice.  When the profile request draws a 401 and the
  refresh that follows fails, the gateway clears the token the login has just stored.
  And \<^verbatim>\<open>login()\<close> never touches \<open>user\<close>: called on a page that holds a profile, it
  ends unauthenticated with that profile still stored.
\<close>

theorem login_token_cleared_counterexample:
  "fst (SafetyAPI_login scripted ''a@b.com'' ''pw''
          (client None [Reply 200 (token_body ''fresh''), Reply 401 empty_body, Reply 401 empty_body]))
     = Inr (token_body ''fresh'')
   \<and> isl (fst (SafetyAPI_getMe scripted (setAccessToken (Some ''fresh'')
          (snd (SafetyAPI_login scripted ''a@b.com'' ''pw''
             (client None [Reply 200 (token_body ''fresh''), Reply 401 empty_body, Reply 401 empty_body]))))))
   \<and> isl (fst (login scripted ''a@b.com'' ''pw''
          (initial_auth,
           client None [Reply 200 (token_body ''fresh''), Reply 401 empty_body, Reply 401 empty_body])))
   \<and> isAuthenticated (fst (snd (login scripted ''a@b.com'' ''pw''
          (initial_auth,
           client None [Reply 200 (token_body ''fresh''), Reply 401 empty_body, Reply 401 empty_body]))))
       = Some False
   \<and> accessToken (snd (snd (login scripted ''a@b.com'' ''pw''
          (initial_auth,
           client None [Reply 200 (token_body ''fresh''), Reply 401 empty_body, Reply 401 empty_body]))))
       = None
   \<and> fst (SafetyAPI_login scripted ''a@b.com'' ''pw''
          (client None [Reply 200 (token_body ''fresh''), Reply 500 empty_body]))
     = Inr (token_body ''fresh'')
   \<and> isl (fst (SafetyAPI_getMe scripted (setAccessToken (Some ''fresh'')
          (snd (SafetyAPI_login scripted ''a@b.com'' ''pw''
             (client None [Reply 200 (token_body ''fresh''), Reply 500 empty_body]))))))
   \<and> isl (fst (login scripted ''a@b.com'' ''pw''
          (signed_in, client (Some ''old'') [Reply 200 (token_body ''fresh''), Reply 500 empty_body])))
   \<and> isAuthenticated (fst (snd (login scripted ''a@b.com'' ''pw''
          (signed_in, client (Some ''old'') [Reply 200 (token_body ''fresh''), Reply 500 empty_body]))))
       = Some False
   \<and> user (fst (snd (login scripted ''a@b.com'' ''pw''
          (signed_in, client (Some ''old'') [Reply 200 (token_body ''fresh''), Reply 500 empty_body]))))
       = Some profile_body"
  by code_simp

section \<open>Properties of the upload workflow\<close>

lemma decimal_limits: "decimal 10 = ''10''" "decimal 50 = ''50''" "decimal 100 = ''100''"
  by (simp_all add: decimal.simps digit_def)

lemma validateFiles_unknown_type:
  "map_of LIMITS (property_key type) = None \<Longrightarrow> validateFiles selected type = Inr (Some ''Unknown type'')"
  by (simp add: validateFiles_def)

text \<open>
  C4.  Validation is reached with a list that has a file, since \<^verbatim>\<open>handleFileSelect\<close>
  returns on an empty selection before it validates, and with one of the three
  categories.  For every such list and category it returns an error message exactly
  when the list has more than one file, or the first file is larger than the
  category's limit (10, 50 and 100 times 1024 * 1024 bytes), or its declared type is
  not the category's (the prefix \<^verbatim>\<open>image/\<close> or \<^verbatim>\<open>video/\<close>, or exactly
  \<^verbatim>\<open>application/pdf\<close>), with the message of the first test that fails; otherwise it
  returns no error.  The name of the file, and so its extension, plays no part.
\<close>

theorem validateFiles_cases:
  "validateFiles (file # rest) (Some ''image'') =
     Inr (if rest \<noteq> [] then Some ''Please select only one file''
          else if file_size file > 10 * 1024 * 1024 then Some ''File size exceeds 10MB limit''
          else if \<not> startsWith (file_type file) ''image/'' then Some ''Invalid image file''
          else None)
   \<and> validateFiles (file # rest) (Some ''pdf'') =
     Inr (if rest \<noteq> [] then Some ''Please select only one file''
          else if file_size file > 50 * 1024 * 1024 then Some ''File size exceeds 50MB limit''
          else if file_type file \<noteq> ''application/pdf'' then Some ''Invalid PDF file''
          else None)
   \<and> validateFiles (file # rest) (Some ''video'') =
     Inr (if rest \<noteq> [] then Some ''Please select only one file''
          else if file_size file > 100 * 1024 * 1024 then Some ''File size exceeds 100MB limit''
          else if \<not> startsWith (file_type file) ''video/'' then Some ''Invalid video file''
          else None)
   \<and> validateFiles (file\<lparr>file_name := n\<rparr> # rest) type = validateFiles (file # rest) type
   \<and> handleFileSelect [] u = Inr u"
proof (intro conjI)
  show "validateFiles (file # rest) (Some ''image'') =
     Inr (if rest \<noteq> [] then Some ''Please select only one file''
          else if file_size file > 10 * 1024 * 1024 then Some ''File size exceeds 10MB limit''
          else if \<not> startsWith (file_type file) ''image/'' then Some ''Invalid image file''
          else None)"
    by (simp add: validateFiles_def LIMITS_def property_key_def decimal_limits)
  show "validateFiles (file # rest) (Some ''pdf'') =
     Inr (if rest \<noteq> [] then Some ''Please select only one file''
          else if file_size file > 50 * 1024 * 1024 then Some ''File size exceeds 50MB limit''
          else if file_type file \<noteq> ''application/pdf'' then Some ''Invalid PDF file''
          else None)"
    by (simp add: validateFiles_def LIMITS_def property_key_def decimal_limits)
  show "validateFiles (file # rest) (Some ''video'') =
     Inr (if rest \<noteq> [] then Some ''Please select only one file''
          else if file_size file > 100 * 1024 * 1024 then Some ''File size exceeds 100MB limit''
          else if \<not> startsWith (file_type file) ''video/'' then Some ''Invalid video file''
          else None)"
    by (simp add: validateFiles_def LIMITS_def property_key_def decimal_limits)
  show "validateFiles (file\<lparr>file_name := n\<rparr> # rest) type = validateFiles (file # rest) type"
    by (cases "map_of LIMITS (property_key type)"; cases rest) (simp_all add: validateFiles_def)
  show "handleFileSelect [] u = Inr u"
    by (simp add: handleFileSelect_def)
qed

text \<open>
  Called with no file, which the component never does, validation would throw on
  reading the size of \<^verbatim>\<open>selected[0]\<close>.
\<close>

lemma validateFiles_no_file: "validateFiles [] (Some ''image'') = Inl TypeError"
  by (simp add: validateFiles_def LIMITS_def property_key_def)

lemma validateFiles_message_nonempty:
  "validateFiles selected type = Inr (Some msg) \<Longrightarrow> msg \<noteq> []"
  by (auto simp: validateFiles_def split: option.splits list.splits if_splits)

lemma validateFiles_ok_nonempty:
  "validateFiles selected type = Inr None \<Longrightarrow> selected \<noteq> []"
  by (auto simp: validateFiles_def split: option.splits list.splits if_splits)

text \<open>
  C10.  When the files chosen fail validation, \<^verbatim>\<open>handleFileSelect\<close> sets the error
  message and nothing else, so the selection stored before stays; when they pass, it
  clears the error and stores the new selection.
\<close>

theorem handleFileSelect_frame:
  "(\<forall>msg. selected \<noteq> [] \<and> validateFiles selected (selectedType u) = Inr (Some msg) \<longrightarrow>
       handleFileSelect selected u = Inr (u\<lparr>error := Some msg\<rparr>)
       \<and> files (u\<lparr>error := Some msg\<rparr>) = files u)
   \<and> (validateFiles selected (selectedType u) = Inr None \<longrightarrow>
       handleFileSelect selected u = Inr (u\<lparr>error := None, files := selected\<rparr>))"
proof (intro conjI allI impI)
  fix msg
  assume h: "selected \<noteq> [] \<and> validateFiles selected (selectedType u) = Inr (Some msg)"
  then have "msg \<noteq> []" by (auto dest: validateFiles_message_nonempty)
  with h show "handleFileSelect selected u = Inr (u\<lparr>error := Some msg\<rparr>)"
    by (simp add: handleFileSelect_def truthy_def)
  show "files (u\<lparr>error := Some msg\<rparr>) = files u" by simp
next
  assume h: "validateFiles selected (selectedType u) = Inr None"
  then have "selected \<noteq> []" by (rule validateFiles_ok_nonempty)
  with h show "handleFileSelect selected u = Inr (u\<lparr>error := None, files := selected\<rparr>)"
    by (simp add: handleFileSelect_def truthy_def)
qed

theorem handleFileSelect_frame_witness:
  "[movie] \<noteq> [] \<and> validateFiles [movie] (selectedType choosing) = Inr (Some ''Invalid image file'')
   \<and> handleFileSelect [movie] choosing = Inr (choosing\<lparr>error := Some ''Invalid image file''\<rparr>)
   \<and> files (choosing\<lparr>error := Some ''Invalid image file''\<rparr>) = [photo]
   \<and> validateFiles [photo\<lparr>file_name := ''gate.png''\<rparr>]
        (selectedType (choosing\<lparr>error := Some ''Invalid image file''\<rparr>)) = Inr None
   \<and> handleFileSelect [photo\<lparr>file_name := ''gate.png''\<rparr>] (choosing\<lparr>error := Some ''Invalid image file''\<rparr>)
       = Inr (choosing\<lparr>error := None, files := [photo\<lparr>file_name := ''gate.png''\<rparr>]\<rparr>)"
proof -
  let ?u = "choosing\<lparr>error := Some ''Invalid image file''\<rparr>"
  let ?f = "photo\<lparr>file_name := ''gate.png''\<rparr>"
  have v1: "validateFiles [movie] (selectedType choosing) = Inr (Some ''Invalid image file'')"
    by (simp add: validateFiles_def LIMITS_def property_key_def movie_def choosing_def)
  have v2: "validateFiles [?f] (selectedType ?u) = Inr None"
    by (simp add: validateFiles_def LIMITS_def property_key_def photo_def choosing_def)
  have a: "handleFileSelect [movie] choosing = Inr ?u \<and> files ?u = files choosing"
    using handleFileSelect_frame [of "[movie]" choosing] v1 by blast
  have b: "handleFileSelect [?f] ?u = Inr (?u\<lparr>error := None, files := [?f]\<rparr>)"
    using handleFileSelect_frame [of "[?f]" ?u] v2 by blast
  show ?thesis using v1 v2 a b by (simp add: choosing_def)
qed

subsection \<open>Polling\<close>

lemma tick_unfold:
  "interval u \<Longrightarrow> tick net (u, s) =
     (render u (fst (interval_callback net (u, s))), snd (interval_callback net (u, s)))"
  by (simp add: tick_def split: prod.splits)

text \<open>
  C8.  A tick whose fetch returns a status that in upper case is none of
  \<^verbatim>\<open>PENDING\<close>, \<^verbatim>\<open>PROCESSING\<close>, \<^verbatim>\<open>COMPLETED\<close> and \<^verbatim>\<open>FAILED\<close> leaves the state of the
  component as it was, the live interval included; and as long as every fetch returns
  such a status, any number of ticks does.
\<close>

theorem unknown_status_is_ignored:
  "(\<forall>d s1 st.
       interval u
       \<and> SafetyAPI_getStatus net (template (uploadId u)) s = (Inr d, s1)
       \<and> status_field d = Some st
       \<and> toUpperCase st \<noteq> ''PENDING'' \<and> toUpperCase st \<noteq> ''PROCESSING''
       \<and> toUpperCase st \<noteq> ''COMPLETED'' \<and> toUpperCase st \<noteq> ''FAILED'' \<longrightarrow>
       tick net (u, s) = (u, s1))
   \<and> (interval u
       \<and> (\<forall>s'. \<exists>d s1 st. SafetyAPI_getStatus net (template (uploadId u)) s' = (Inr d, s1)
             \<and> status_field d = Some st
             \<and> toUpperCase st \<noteq> ''PENDING'' \<and> toUpperCase st \<noteq> ''PROCESSING''
             \<and> toUpperCase st \<noteq> ''COMPLETED'' \<and> toUpperCase st \<noteq> ''FAILED'') \<longrightarrow>
       (\<forall>n. fst (ticks n net (u, s)) = u))"
proof (intro conjI allI impI)
  fix d s1 st
  assume h: "interval u
       \<and> SafetyAPI_getStatus net (template (uploadId u)) s = (Inr d, s1)
       \<and> status_field d = Some st
       \<and> toUpperCase st \<noteq> ''PENDING'' \<and> toUpperCase st \<noteq> ''PROCESSING''
       \<and> toUpperCase st \<noteq> ''COMPLETED'' \<and> toUpperCase st \<noteq> ''FAILED''"
  then have "interval_callback net (u, s) = (u, s1)"
    by (simp add: interval_callback_def Let_def)
  with h show "tick net (u, s) = (u, s1)"
    by (simp add: tick_unfold render_def)
next
  fix n
  assume h: "interval u
       \<and> (\<forall>s'. \<exists>d s1 st. SafetyAPI_getStatus net (template (uploadId u)) s' = (Inr d, s1)
             \<and> status_field d = Some st
             \<and> toUpperCase st \<noteq> ''PENDING'' \<and> toUpperCase st \<noteq> ''PROCESSING''
             \<and> toUpperCase st \<noteq> ''COMPLETED'' \<and> toUpperCase st \<noteq> ''FAILED'')"
  have one: "fst (tick net (u, s')) = u" for s'
  proof -
    from h obtain d s1 st where g: "SafetyAPI_getStatus net (template (uploadId u)) s' = (Inr d, s1)"
      "status_field d = Some st"
      "toUpperCase st \<noteq> ''PENDING''" "toUpperCase st \<noteq> ''PROCESSING''"
      "toUpperCase st \<noteq> ''COMPLETED''" "toUpperCase st \<noteq> ''FAILED''"
      by blast
    then have "interval_callback net (u, s') = (u, s1)"
      by (simp add: interval_callback_def Let_def)
    with h show ?thesis by (simp add: tick_unfold render_def)
  qed
  show "fst (ticks n net (u, s)) = u"
  proof (induction n arbitrary: s)
    case 0
    show ?case by simp
  next
    case (Suc n)
    have "tick net (u, s) = (u, snd (tick net (u, s)))"
      using one [of s] by (cases "tick net (u, s)") simp
    then show ?case using Suc.IH [of "snd (tick net (u, s))"] by simp
  qed
qed

lemma api_fulfilled:
  "dispatchRequest net (request_interceptor (accessToken s) cfg) s = (Inr resp, s1) \<Longrightarrow>
     api net cfg s = (Inr resp, s1)"
  by (subst api.simps) simp

lemma getStatus_always:
  "SafetyAPI_getStatus (always (Reply 200 b)) videoId s =
     (Inr b, s\<lparr>world := (),
               wire := wire s @ [request_interceptor (accessToken s)
                                   (get (''/videos/'' @ videoId @ ''/status''))]\<rparr>)"
proof -
  have "dispatchRequest (always (Reply 200 b))
          (request_interceptor (accessToken s) (get (''/videos/'' @ videoId @ ''/status''))) s =
        (Inr (Response 200 b),
         s\<lparr>world := (),
           wire := wire s @ [request_interceptor (accessToken s)
                               (get (''/videos/'' @ videoId @ ''/status''))]\<rparr>)"
    by (simp add: dispatchRequest_def always_def settle_def)
  then show ?thesis
    by (simp add: SafetyAPI_getStatus_def api_fulfilled response_data_def)
qed

theorem unknown_status_is_ignored_witness:
  "interval processing
   \<and> fst (SafetyAPI_getStatus scripted (template (uploadId processing))
            (client (Some ''t'') [Reply 200 (status_body ''queued'')]))
       = Inr (status_body ''queued'')
   \<and> status_field (status_body ''queued'') = Some ''queued''
   \<and> toUpperCase ''queued'' = ''QUEUED''
   \<and> fst (tick scripted (processing, client (Some ''t'') [Reply 200 (status_body ''queued'')]))
       = processing
   \<and> fst (ticks 1000 (always (Reply 200 (status_body ''queued'')))
            (processing, \<lparr>accessToken = Some ''t'', world = (), wire = [], console = []\<rparr>))
       = processing"
proof -
  let ?s = "client (Some ''t'') [Reply 200 (status_body ''queued'')]"
  let ?z = "\<lparr>accessToken = Some ''t'', world = (), wire = [], console = []\<rparr>"
  let ?net = "always (Reply 200 (status_body ''queued''))"
  have i: "interval processing" by (simp add: processing_def)
  have g: "fst (SafetyAPI_getStatus scripted (template (uploadId processing)) ?s)
       = Inr (status_body ''queued'')"
    by code_simp
  then obtain s1 where g': "SafetyAPI_getStatus scripted (template (uploadId processing)) ?s
       = (Inr (status_body ''queued''), s1)"
    by (cases "SafetyAPI_getStatus scripted (template (uploadId processing)) ?s") auto
  have f: "status_field (status_body ''queued'') = Some ''queued''"
    by (simp add: status_body_def)
  have up: "toUpperCase ''queued'' = ''QUEUED''" by (simp add: toUpperCase_def)
  have a: "tick scripted (processing, ?s) = (processing, s1)"
    using unknown_status_is_ignored [of processing scripted ?s] i g' f up by auto
  have "\<forall>s'. \<exists>d s1 st. SafetyAPI_getStatus ?net (template (uploadId processing)) s' = (Inr d, s1)
             \<and> status_field d = Some st
             \<and> toUpperCase st \<noteq> ''PENDING'' \<and> toUpperCase st \<noteq> ''PROCESSING''
             \<and> toUpperCase st \<noteq> ''COMPLETED'' \<and> toUpperCase st \<noteq> ''FAILED''"
    using f up by (auto simp: getStatus_always)
  with i have b: "\<forall>n. fst (ticks n ?net (processing, ?z)) = processing"
    using unknown_status_is_ignored [of processing ?net ?z] by blast
  show ?thesis using i g f up a b by simp
qed

text \<open>A failed job stops the poller at once.\<close>

lemma tick_failed_stops:
  assumes "interval u"
    and "SafetyAPI_getStatus net (template (uploadId u)) s = (Inr d, s1)"
    and "status_field d = Some st" and "toUpperCase st = ''FAILED''"
  shows "tick net (u, s) =
     (u\<lparr>status := ''FAILED'', error := Some ''Processing failed on server.'', interval := False\<rparr>, s1)"
  using assms by (simp add: tick_unfold interval_callback_def Let_def render_def effect_body_def)

text \<open>A pending or processing job, while the status is \<^verbatim>\<open>PROCESSING\<close>, changes nothing.\<close>

lemma tick_processing_continues:
  assumes "interval u" and "status u = ''PROCESSING''"
    and "SafetyAPI_getStatus net (template (uploadId u)) s = (Inr d, s1)"
    and "status_field d = Some st"
    and "toUpperCase st = ''PENDING'' \<or> toUpperCase st = ''PROCESSING''"
  shows "tick net (u, s) = (u, s1)"
proof -
  from assms have "interval_callback net (u, s) = (u\<lparr>status := ''PROCESSING''\<rparr>, s1)"
    by (auto simp: interval_callback_def Let_def)
  moreover from assms have "u\<lparr>status := ''PROCESSING''\<rparr> = u" by simp
  ultimately show ?thesis using assms by (simp add: tick_unfold render_def)
qed

text \<open>A fetch that fails is logged and changes nothing.\<close>

lemma tick_fetch_error_continues:
  assumes "interval u"
    and "SafetyAPI_getStatus net (template (uploadId u)) s = (Inl err, s1)"
  shows "tick net (u, s) = (u, console_log (Error ''Polling error'') s1)"
  using assms by (simp add: tick_unfold interval_callback_def render_def)

text \<open>
  A completed job clears the interval inside the callback, but the change of the
  status runs the effect again, and the effect starts a new interval for every status
  but \<^verbatim>\<open>FAILED\<close>.
\<close>

lemma tick_completed_restarts:
  assumes "interval u" and "status u \<noteq> ''COMPLETED''" and "truthy (uploadId u)"
    and "SafetyAPI_getStatus net (template (uploadId u)) s = (Inr d, s1)"
    and "status_field d = Some st" and "toUpperCase st = ''COMPLETED''"
  shows "status (fst (tick net (u, s))) = ''COMPLETED'' \<and> interval (fst (tick net (u, s)))"
  using assms by (simp add: tick_unfold interval_callback_def Let_def render_def effect_body_def)

text \<open>
  C5 at the failing input: the job of identifier 42 is processing, the first fetch
  returns \<^verbatim>\<open>completed\<close>.  After that tick the status is \<^verbatim>\<open>COMPLETED\<close> and an interval is
  live again; the next tick fetches the status once more.
\<close>

theorem poll_goes_on_after_completed:
  "status (fst (tick scripted (processing,
       client (Some ''t'') [Reply 200 (status_body ''completed''), Reply 200 (status_body ''completed'')])))
     = ''COMPLETED''
   \<and> interval (fst (tick scripted (processing,
       client (Some ''t'') [Reply 200 (status_body ''completed''), Reply 200 (status_body ''completed'')])))
   \<and> length (wire (snd (ticks 2 scripted (processing,
       client (Some ''t'') [Reply 200 (status_body ''completed''), Reply 200 (status_body ''completed'')]))))
     = 2
   \<and> completed (fst (ticks 2 scripted (processing,
       client (Some ''t'') [Reply 200 (status_body ''completed''), Reply 200 (status_body ''completed'')])))
     = [Some ''42'', Some ''42'']"
  by code_simp

section \<open>Properties of the interceptor under interleaving\<close>

lemma settle_cases:
  obtains resp where "settle c r = Inr resp"
  | e where "settle c r = Inl e" "config e = c"
  by (cases "settle c r") (auto dest: settle_config)

text \<open>
  The machine is the interceptor of \<open>api\<close>: a call alone on the page, served by a
  transport, ends in the server state, the token, the requests sent and the outcome
  that \<open>api\<close> computes.
\<close>

lemma serve_api:
  "fst (serve 3 net (world s, one_call cfg s)) = world (snd (api net cfg s))
   \<and> token (snd (serve 3 net (world s, one_call cfg s))) = accessToken (snd (api net cfg s))
   \<and> map snd (sent (snd (serve 3 net (world s, one_call cfg s)))) = sent_by net cfg s
   \<and> stage (tasks (snd (serve 3 net (world s, one_call cfg s))) ! 0) = Settled (fst (api net cfg s))"
proof -
  define c1 where "c1 = request_interceptor (accessToken s) cfg"
  define rf where "rf = request_interceptor (accessToken s) (post ''/auth/refresh'' [])"
  obtain r1 w1 where n1: "net (world s) c1 = (r1, w1)" by (cases "net (world s) c1")
  obtain r2 w2 where n2: "net w1 rf = (r2, w2)" by (cases "net w1 rf")
  have rfa: "auth_endpoint rf" by (simp add: rf_def)
  have rfr: "\<not> retry rf" by (simp add: rf_def post_def)
  have p1: "one_call cfg s = \<lparr>token = accessToken s,
      tasks = [\<lparr>request = c1, stage = InFlight, waiter = None\<rparr>], sent = [(0, c1)]\<rparr>"
    by (simp add: one_call_def start_def c1_def Let_def)
  have three: "(3::nat) = Suc (Suc (Suc 0))" by simp
  show ?thesis
  proof (cases "retry cfg \<or> auth_endpoint cfg")
    case True
    then have leaf: "retry c1 \<or> auth_endpoint c1" by (simp add: c1_def)
    have a: "api net cfg s = dispatchRequest net c1 s" using True by (simp add: api_leaf c1_def)
    show ?thesis
      using leaf n1
      by (cases rule: settle_cases [of c1 r1])
        (auto simp: a p1 three dispatchRequest_def sent_by_def arrive_def finish_def)
  next
    case False
    then have u: "\<not> retry cfg" "\<not> auth_endpoint cfg" by auto
    then have u1: "\<not> retry c1" "\<not> auth_endpoint c1" by (simp_all add: c1_def)
    note unf = api_unfold [OF u, of net s, folded c1_def rf_def]
    show ?thesis
    proof (cases rule: settle_cases [of c1 r1])
      case (1 resp)
      then show ?thesis
        using n1 by (simp add: unf p1 three dispatchRequest_def sent_by_def arrive_def finish_def)
    next
      case (2 e)
      show ?thesis
      proof (cases "unauthorized e")
        case False
        with 2 show ?thesis
          using n1 by (simp add: unf p1 three dispatchRequest_def sent_by_def arrive_def finish_def)
      next
        case True
        show ?thesis
        proof (cases rule: settle_cases [of rf r2])
          case (2 e2)
          with True \<open>settle c1 r1 = Inl e\<close> \<open>config e = c1\<close> show ?thesis
            using n1 n2 u1 rfa rfr
            by (simp add: unf p1 three dispatchRequest_def sent_by_def arrive_def finish_def
                start_def resume_def Let_def rf_def [symmetric])
        next
          case (1 resp)
          obtain st d where resp: "resp = Response st d" by (cases resp)
          define c2 where "c2 = c1\<lparr>retry := True,
              authorization := Some (''Bearer '' @ template (access_token d))\<rparr>"
          have ri: "request_interceptor (access_token d) c2 = c2"
            by (simp add: request_interceptor_def c2_def)
          have c2n: "c1\<lparr>retry := True, authorization := Some (CHR ''B'' # CHR ''e'' # CHR ''a'' #
              CHR ''r'' # CHR ''e'' # CHR ''r'' # CHR '' '' # template (access_token d))\<rparr> = c2"
            by (simp add: c2_def)
          obtain r3 w3 where n3: "net w2 c2 = (r3, w3)" by (cases "net w2 c2")
          have rc2: "retry c2" by (simp add: c2_def)
          show ?thesis
            using 1 resp True \<open>settle c1 r1 = Inl e\<close> \<open>config e = c1\<close> n1 n2 n3 u1 rfa rfr rc2
            by (cases rule: settle_cases [of c2 r3])
              (simp_all add: unf p1 three dispatchRequest_def sent_by_def arrive_def finish_def
                start_def resume_def Let_def rf_def [symmetric] c2n ri setAccessToken_def)
        qed
      qed
    qed
  qed
qed

lemma refresh_url_auth_endpoint: "url c = ''/auth/refresh'' \<Longrightarrow> auth_endpoint c"
  by (simp add: auth_endpoint_def)

lemma length_filter_update:
  "i < length xs \<Longrightarrow> \<not> P (xs ! i) \<Longrightarrow> \<not> P y \<Longrightarrow>
     length (filter P (xs[i := y])) = length (filter P xs)"
proof (induction xs arbitrary: i)
  case Nil
  then show ?case by simp
next
  case (Cons x xs)
  then show ?case by (cases i) auto
qed

lemma arrive_401:
  assumes "draws_refresh p i"
  shows "arrive i (Reply 401 d) p =
     p\<lparr>tasks := (tasks p)[i := (tasks p ! i)
                    \<lparr>request := (request (tasks p ! i))\<lparr>retry := True\<rparr>,
                       stage := Refreshing (length (tasks p))\<rparr>]
                 @ [\<lparr>request = request_interceptor (token p) (post ''/auth/refresh'' []),
                     stage = InFlight, waiter = Some i\<rparr>],
       sent := sent p @ [(length (tasks p),
                          request_interceptor (token p) (post ''/auth/refresh'' []))]\<rparr>"
  using assms
  by (simp add: draws_refresh_def arrive_def settle_def unauthorized_def start_def Let_def)

lemma arrive_401_other:
  assumes "draws_refresh p i" "draws_refresh p j" "j \<noteq> i"
  shows "draws_refresh (arrive i (Reply 401 d) p) j"
  using assms by (simp add: arrive_401 draws_refresh_def nth_append)

lemma arrive_401_counts:
  assumes "draws_refresh p i"
  shows "length (refresh_posts (arrive i (Reply 401 d) p)) = Suc (length (refresh_posts p))"
    and "refreshes_in_flight (arrive i (Reply 401 d) p) = Suc (refreshes_in_flight p)"
    and "token (arrive i (Reply 401 d) p) = token p"
proof -
  show "length (refresh_posts (arrive i (Reply 401 d) p)) = Suc (length (refresh_posts p))"
    using assms by (simp add: arrive_401 refresh_posts_def post_def)
  from assms have "\<not> awaits_refresh_reply (tasks p ! i)"
    by (auto simp: draws_refresh_def awaits_refresh_reply_def dest: refresh_url_auth_endpoint)
  moreover have "\<not> awaits_refresh_reply ((tasks p ! i)
                    \<lparr>request := (request (tasks p ! i))\<lparr>retry := True\<rparr>,
                       stage := Refreshing (length (tasks p))\<rparr>)"
    by (simp add: awaits_refresh_reply_def)
  moreover from assms have "i < length (tasks p)" by (simp add: draws_refresh_def)
  ultimately show "refreshes_in_flight (arrive i (Reply 401 d) p) = Suc (refreshes_in_flight p)"
    using assms
    by (simp add: arrive_401 refreshes_in_flight_def length_filter_update
        awaits_refresh_reply_def post_def)
  show "token (arrive i (Reply 401 d) p) = token p"
    using assms by (simp add: arrive_401)
qed

lemma run_401s:
  assumes "distinct ids" and "\<forall>i \<in> set ids. draws_refresh p i"
  shows "length (refresh_posts (run (map (\<lambda>i. Arrive i (Reply 401 (d i))) ids) p))
           = length (refresh_posts p) + length ids
       \<and> refreshes_in_flight (run (map (\<lambda>i. Arrive i (Reply 401 (d i))) ids) p)
           = refreshes_in_flight p + length ids
       \<and> token (run (map (\<lambda>i. Arrive i (Reply 401 (d i))) ids) p) = token p"
  using assms
proof (induction ids arbitrary: p)
  case Nil
  then show ?case by simp
next
  case (Cons i ids)
  then have i: "draws_refresh p i" by simp
  have "\<forall>j \<in> set ids. draws_refresh (arrive i (Reply 401 (d i)) p) j"
    using Cons.prems by (auto intro: arrive_401_other)
  moreover from Cons.prems have "distinct ids" by simp
  ultimately show ?case
    using Cons.IH [of "arrive i (Reply 401 (d i)) p"] arrive_401_counts [OF i, of "d i"]
    by simp
qed

lemma arrive_refresh_ok:
  assumes "j < length (tasks p)" "stage (tasks p ! j) = InFlight" "waiter (tasks p ! j) = Some i"
    and "i \<noteq> j" and "200 \<le> st" "st < 300"
  shows "token (arrive j (Reply st d) p) = access_token d"
    and "sent (arrive j (Reply st d) p) =
           sent p @ [(i, (request (tasks p ! i))\<lparr>authorization :=
                           Some (''Bearer '' @ template (access_token d))\<rparr>)]"
  using assms
  by (simp_all add: arrive_def settle_def finish_def resume_def Let_def request_interceptor_def)

text \<open>
  C1, as the code has it.  Every request whose 401 reaches the handler (a request in
  flight that is neither marked \<^verbatim>\<open>_retry\<close> nor a login or refresh call) starts a
  refresh of its own: when the 401s of N such requests arrive before any refresh is
  answered, N refresh requests go out and all N are in flight together.  When the
  refresh of a request is answered with success, the token of that answer is stored
  and the request is sent again with it.
\<close>

theorem one_refresh_per_request:
  "(distinct ids \<and> (\<forall>i \<in> set ids. draws_refresh p i) \<longrightarrow>
       length (refresh_posts (run (map (\<lambda>i. Arrive i (Reply 401 (d i))) ids) p))
           = length (refresh_posts p) + length ids
       \<and> refreshes_in_flight (run (map (\<lambda>i. Arrive i (Reply 401 (d i))) ids) p)
           = refreshes_in_flight p + length ids
       \<and> token (run (map (\<lambda>i. Arrive i (Reply 401 (d i))) ids) p) = token p)
   \<and> (\<forall>i j st b.
       j < length (tasks p) \<and> stage (tasks p ! j) = InFlight \<and> waiter (tasks p ! j) = Some i
       \<and> i \<noteq> j \<and> 200 \<le> st \<and> st < 300 \<longrightarrow>
       token (arrive j (Reply st b) p) = access_token b
       \<and> sent (arrive j (Reply st b) p) =
           sent p @ [(i, (request (tasks p ! i))\<lparr>authorization :=
                           Some (''Bearer '' @ template (access_token b))\<rparr>)])"
  using run_401s [of ids p d] arrive_refresh_ok [of _ p] by blast

theorem one_refresh_per_request_witness:
  "distinct [0, 1::nat] \<and> draws_refresh two_calls 0 \<and> draws_refresh two_calls 1
   \<and> length (refresh_posts two_calls) = 0 \<and> refreshes_in_flight two_calls = 0
   \<and> length (refresh_posts
        (run [Arrive 0 (Reply 401 empty_body), Arrive 1 (Reply 401 empty_body)] two_calls)) = 2
   \<and> refreshes_in_flight
        (run [Arrive 0 (Reply 401 empty_body), Arrive 1 (Reply 401 empty_body)] two_calls) = 2
   \<and> token (arrive 2 (Reply 200 (token_body ''t1''))
        (run [Arrive 0 (Reply 401 empty_body), Arrive 1 (Reply 401 empty_body)] two_calls))
       = Some ''t1''
   \<and> last (sent (arrive 2 (Reply 200 (token_body ''t1''))
        (run [Arrive 0 (Reply 401 empty_body), Arrive 1 (Reply 401 empty_body)] two_calls)))
       = (0, (get ''/results/summary'')\<lparr>retry := True, authorization := Some ''Bearer t1''\<rparr>)"
proof -
  define p where "p = run [Arrive 0 (Reply 401 empty_body), Arrive 1 (Reply 401 empty_body)] two_calls"
  have e: "draws_refresh two_calls 0" "draws_refresh two_calls 1"
    by code_simp+
  have z: "length (refresh_posts two_calls) = 0" "refreshes_in_flight two_calls = 0"
    by code_simp+
  have m: "run (map (\<lambda>i. Arrive i (Reply 401 ((\<lambda>i. empty_body) i))) [0, 1::nat]) two_calls = p"
    by (simp add: p_def)
  have "distinct [0, 1::nat] \<and> (\<forall>i \<in> set [0, 1::nat]. draws_refresh two_calls i)"
    using e by simp
  with one_refresh_per_request [of "[0, 1]" two_calls "\<lambda>i. empty_body"]
  have a: "length (refresh_posts p) = 2 \<and> refreshes_in_flight p = 2"
    unfolding m using z by simp
  have h: "2 < length (tasks p) \<and> stage (tasks p ! 2) = InFlight \<and> waiter (tasks p ! 2) = Some 0
      \<and> (0::nat) \<noteq> 2 \<and> (200::nat) \<le> 200 \<and> (200::nat) < 300"
    unfolding p_def by code_simp
  have r: "(request (tasks p ! 0))\<lparr>authorization := Some (''Bearer '' @ template (access_token (token_body ''t1'')))\<rparr>
      = (get ''/results/summary'')\<lparr>retry := True, authorization := Some ''Bearer t1''\<rparr>"
    unfolding p_def by code_simp
  from one_refresh_per_request [of "[]" p "\<lambda>i. empty_body"] h
  have "token (arrive 2 (Reply 200 (token_body ''t1'')) p) = access_token (token_body ''t1'')
       \<and> sent (arrive 2 (Reply 200 (token_body ''t1'')) p) =
           sent p @ [(0, (request (tasks p ! 0))\<lparr>authorization :=
                           Some (''Bearer '' @ template (access_token (token_body ''t1'')))\<rparr>)]"
    by blast
  then have b: "token (arrive 2 (Reply 200 (token_body ''t1'')) p) = Some ''t1''
       \<and> last (sent (arrive 2 (Reply 200 (token_body ''t1'')) p))
          = (0, (get ''/results/summary'')\<lparr>retry := True, authorization := Some ''Bearer t1''\<rparr>)"
    unfolding r by (simp add: token_body_def empty_body_def)
  show ?thesis using e z a b unfolding p_def by simp
qed

text \<open>
  The claim C1 as stated fails for two requests: both 401s arrive, two refresh
  requests are sent and both are unanswered at once; the two answers carry different
  tokens, and each request is sent again with the token of its own refresh.
\<close>

theorem single_flight_counterexample:
  "map snd (refresh_posts
      (run [Call (get ''/results/summary''), Call (get ''/results/violations''),
            Arrive 0 (Reply 401 empty_body), Arrive 1 (Reply 401 empty_body)] empty_page))
     = [(post ''/auth/refresh'' [])\<lparr>authorization := Some ''Bearer old''\<rparr>,
        (post ''/auth/refresh'' [])\<lparr>authorization := Some ''Bearer old''\<rparr>]
   \<and> refreshes_in_flight
      (run [Call (get ''/results/summary''), Call (get ''/results/violations''),
            Arrive 0 (Reply 401 empty_body), Arrive 1 (Reply 401 empty_body)] empty_page) = 2
   \<and> drop 4 (sent
      (run [Call (get ''/results/summary''), Call (get ''/results/violations''),
            Arrive 0 (Reply 401 empty_body), Arrive 1 (Reply 401 empty_body),
            Arrive 2 (Reply 200 (token_body ''t1'')), Arrive 3 (Reply 200 (token_body ''t2''))]
         empty_page))
     = [(0, (get ''/results/summary'')\<lparr>retry := True, authorization := Some ''Bearer t1''\<rparr>),
        (1, (get ''/results/violations'')\<lparr>retry := True, authorization := Some ''Bearer t2''\<rparr>)]"
  by code_simp

end
